theory Spec2Isabelle
  imports Main "HOL-Library.Word" "HOL-Library.Multiset"
begin

unbundle bit_operations_syntax

section \<open>TEI management of mISDN (drivers/isdn/mISDN/tei.c)\<close>

text \<open>
  A shallow embedding of \<^verbatim>\<open>tei.c\<close>: the 8-octet TEI management frame, the
  outbound queue of the manager (\<^verbatim>\<open>do_send\<close>, \<^verbatim>\<open>do_ack\<close>,
  \<^verbatim>\<open>mgr_send_down\<close>), the TEI state machine with its handlers and the inbound
  dispatch (\<^verbatim>\<open>ph_data_ind\<close>, \<^verbatim>\<open>tei_ph_data_ind\<close>).

  The manager, its list of layer-2 entities and their TEI sessions are one value that every
  function takes and returns. A session is addressed by the position of its entity in the
  manager's list: this stands for the pointers \<^verbatim>\<open>tm->l2\<close>, \<^verbatim>\<open>tm->mgr\<close> and
  \<^verbatim>\<open>l2->tm\<close>.
\<close>

subsection \<open>Types and constants\<close>

type_synonym u_char = "8 word"
type_synonym u_int = "32 word"

text \<open>
  The headers \<^verbatim>\<open>layer2.h\<close> and \<^verbatim>\<open>mISDNif.h\<close> are not among the sources. The three
  constants \<^verbatim>\<open>TEI_SAPI\<close>, \<^verbatim>\<open>UI\<close> and \<^verbatim>\<open>MISDN_ID_NONE\<close> that \<^verbatim>\<open>tei.c\<close> takes
  from them are parameters of the model.
\<close>

record hdr =
  TEI_SAPI :: nat
  UI :: nat
  MISDN_ID_NONE :: u_int

text \<open>Modelled from the spec: \<^verbatim>\<open>GROUP_TEI\<close> (layer2.h, missing) is the value 127.\<close>

definition GROUP_TEI :: nat where
  "GROUP_TEI = 127"

definition ID_REQUEST :: u_char where "ID_REQUEST = 1"
definition ID_ASSIGNED :: u_char where "ID_ASSIGNED = 2"
definition ID_DENIED :: u_char where "ID_DENIED = 3"
definition ID_CHK_REQ :: u_char where "ID_CHK_REQ = 4"
definition ID_CHK_RES :: u_char where "ID_CHK_RES = 5"
definition ID_REMOVE :: u_char where "ID_REMOVE = 6"
definition ID_VERIFY :: u_char where "ID_VERIFY = 7"

definition TEI_ENTITY_ID :: u_char where "TEI_ENTITY_ID = 0xf"

datatype tei_state = ST_TEI_NOP | ST_TEI_IDREQ | ST_TEI_IDVERIFY

datatype tei_event =
  EV_IDREQ | EV_ASSIGN | EV_ASSIGN_REQ | EV_DENIED | EV_CHKREQ | EV_REMOVE | EV_VERIFY | EV_TIMER

text \<open>The primitives of a message head that \<^verbatim>\<open>tei.c\<close> names.\<close>

datatype prim =
  PH_DATA_REQ | PH_DATA_IND | PH_DATA_CNF | PH_ACTIVATE_IND | PH_DEACTIVATE_IND
  | PH_ACTIVATE_REQ | DL_UNITDATA_REQ | PRIM_OTHER nat

text \<open>The commands exchanged with layer 2 (\<^verbatim>\<open>tei_l2\<close>, \<^verbatim>\<open>l2_tei\<close>).\<close>

datatype mdl_cmd =
  MDL_ASSIGN_REQ | MDL_REMOVE_REQ | MDL_ERROR_RSP | MDL_ASSIGN_IND | MDL_ERROR_IND | MDL_OTHER nat

datatype protocol = ISDN_P_LAPD_TE | ISDN_P_LAPD_NT | ISDN_P_OTHER nat

text \<open>A socket buffer: the head's primitive and id, and the data octets.\<close>

record sk_buff =
  skb_prim :: prim
  skb_id :: u_int
  skb_data :: "u_char list"

text \<open>
  \<^verbatim>\<open>struct teimgr\<close>: the state of the FSM instance \<^verbatim>\<open>tei_m\<close>, whether the timer
  \<^verbatim>\<open>timer\<close> is pending, and the fields \<^verbatim>\<open>ri\<close>, \<^verbatim>\<open>nval\<close>, \<^verbatim>\<open>tval\<close>.
\<close>

record teimgr =
  tm_state :: tei_state
  tm_timer :: bool
  tm_ri :: int
  tm_nval :: int
  tm_tval :: int

text \<open>\<^verbatim>\<open>struct layer2\<close>, as far as \<^verbatim>\<open>tei.c\<close> reads and writes it.\<close>

record layer2 =
  l2_sapi :: int
  l2_tei :: int
  FLG_FIXED_TEI :: bool
  FLG_LAPD_NET :: bool
  l2_tm :: teimgr

text \<open>
  \<^verbatim>\<open>struct mISDNmanager\<close>: the entity list, the four option bits, the send queue and the
  two ids. The remaining fields record what the manager did to its surroundings:
  \<^item> \<open>ch_accepted\<close>: the buffers that \<^verbatim>\<open>mgr->ch.recv\<close> accepted, oldest first;
  \<^item> \<open>ch_inflight\<close>: those of them for which no \<^verbatim>\<open>PH_DATA_CNF\<close> has arrived yet;
  \<^item> \<open>kfreed\<close>: the buffers released by \<^verbatim>\<open>dev_kfree_skb\<close> after a refused hand-off;
  \<^item> \<open>act_req\<close>: how many \<^verbatim>\<open>PH_ACTIVATE_REQ\<close> were queued upwards;
  \<^item> \<open>l2_log\<close>: the calls of \<^verbatim>\<open>tei_l2\<close> (entity, command, argument), oldest first;
  \<^item> \<open>rnd_used\<close>: how many random values \<^verbatim>\<open>random_ri\<close> has drawn.
\<close>

record mISDNmanager =
  mgr_layer2 :: "layer2 list"
  MGR_OPT_NETWORK :: bool
  MGR_OPT_USER :: bool
  MGR_PH_ACTIVE :: bool
  MGR_PH_NOTREADY :: bool
  sendq :: "sk_buff list"
  nextid :: u_int
  lastid :: u_int
  ch_accepted :: "sk_buff list"
  ch_inflight :: "sk_buff list"
  kfreed :: "sk_buff list"
  act_req :: nat
  l2_log :: "(nat \<times> mdl_cmd \<times> int) list"
  rnd_used :: nat

text \<open>
  What the surroundings decide: the values \<^verbatim>\<open>get_random_bytes\<close> delivers (the n-th draw
  is \<open>rand n\<close>), the return value of the transport's \<^verbatim>\<open>ch.recv\<close> for a buffer (0 is
  success), and \<^verbatim>\<open>create_l2\<close> of layer2.c (\<open>None\<close> when it returns NULL).
\<close>

record env =
  rand :: "nat \<Rightarrow> 16 word"
  ch_recv :: "sk_buff \<Rightarrow> int"
  create_l2 :: "protocol \<Rightarrow> bool \<times> bool \<times> bool \<Rightarrow> int \<Rightarrow> layer2 option"

subsection \<open>Correlation ids and the outbound queue\<close>

definition new_id :: "hdr \<Rightarrow> mISDNmanager \<Rightarrow> u_int \<times> mISDNmanager" where
  "new_id c m =
     (let id0 = nextid m;
          m1 = m\<lparr>nextid := nextid m + 1\<rparr>;
          m2 = (if id0 = 0x7fff then m1\<lparr>nextid := 1\<rparr> else m1);
          id1 = push_bit 16 id0;
          id2 = id1 OR push_bit 8 (of_nat GROUP_TEI);
          id3 = id2 OR of_nat (TEI_SAPI c)
      in (id3, m2))"

text \<open>The hand-off \<^verbatim>\<open>mgr->ch.recv(mgr->ch.rst, skb)\<close>: an accepted buffer is in flight.\<close>

definition hand_off :: "env \<Rightarrow> mISDNmanager \<Rightarrow> sk_buff \<Rightarrow> int \<times> mISDNmanager" where
  "hand_off e m skb =
     (if ch_recv e skb = 0
      then (0, m\<lparr>ch_accepted := ch_accepted m @ [skb], ch_inflight := ch_inflight m @ [skb]\<rparr>)
      else (ch_recv e skb, m))"

definition dev_kfree_skb :: "mISDNmanager \<Rightarrow> sk_buff \<Rightarrow> mISDNmanager" where
  "dev_kfree_skb m skb = m\<lparr>kfreed := kfreed m @ [skb]\<rparr>"

definition do_send :: "hdr \<Rightarrow> env \<Rightarrow> mISDNmanager \<Rightarrow> mISDNmanager" where
  "do_send c e m =
     (if \<not> MGR_PH_ACTIVE m then m
      else if MGR_PH_NOTREADY m then m
      else
        (let m1 = m\<lparr>MGR_PH_NOTREADY := True\<rparr> in
         case sendq m1 of
           [] \<Rightarrow> m1\<lparr>MGR_PH_NOTREADY := False\<rparr>
         | skb # rest \<Rightarrow>
             (let m2 = m1\<lparr>sendq := rest\<rparr>;
                  m3 = m2\<lparr>lastid := skb_id skb\<rparr>;
                  (r, m4) = hand_off e m3 skb
              in if r \<noteq> 0
                 then (dev_kfree_skb m4 skb)\<lparr>MGR_PH_NOTREADY := False, lastid := MISDN_ID_NONE c\<rparr>
                 else m4)))"

definition do_ack :: "hdr \<Rightarrow> env \<Rightarrow> mISDNmanager \<Rightarrow> u_int \<Rightarrow> mISDNmanager" where
  "do_ack c e m aid =
     (if MGR_PH_NOTREADY m then
        (if aid = lastid m then
           (let clear = (\<lambda>m'. m'\<lparr>lastid := MISDN_ID_NONE c, MGR_PH_NOTREADY := False\<rparr>) in
            if MGR_PH_ACTIVE m then
              (case sendq m of
                 [] \<Rightarrow> clear m
               | skb # rest \<Rightarrow>
                   (let m1 = m\<lparr>sendq := rest\<rparr>;
                        m2 = m1\<lparr>lastid := skb_id skb\<rparr>;
                        (r, m3) = hand_off e m2 skb
                    in if r = 0 then m3 else clear (dev_kfree_skb m3 skb)))
            else clear m)
         else m)
      else m)"

text \<open>\<^verbatim>\<open>_queue_data(&mgr->ch, PH_ACTIVATE_REQ, ...)\<close>: a request to activate the link.\<close>

definition queue_activate_req :: "mISDNmanager \<Rightarrow> mISDNmanager" where
  "queue_activate_req m = m\<lparr>act_req := Suc (act_req m)\<rparr>"

definition mgr_send_down :: "hdr \<Rightarrow> env \<Rightarrow> mISDNmanager \<Rightarrow> sk_buff \<Rightarrow> mISDNmanager" where
  "mgr_send_down c e m skb =
     (let m1 = m\<lparr>sendq := sendq m @ [skb]\<rparr> in
      if \<not> MGR_PH_ACTIVE m1 then queue_activate_req m1 else do_send c e m1)"

text \<open>
  \<^verbatim>\<open>dl_unit_data\<close>: \<open>Inl ()\<close> is the return value \<^verbatim>\<open>-EINVAL\<close>, \<open>Inr\<close> carries the
  manager after a return of 0.
\<close>

definition dl_unit_data :: "hdr \<Rightarrow> env \<Rightarrow> mISDNmanager \<Rightarrow> sk_buff \<Rightarrow> unit + mISDNmanager" where
  "dl_unit_data c e m skb =
     (if \<not> MGR_OPT_NETWORK m then Inl ()
      else
        (let m1 = (if \<not> MGR_PH_ACTIVE m then queue_activate_req m else m);
             d = [0x02, 0xff, of_nat (UI c)] @ skb_data skb;
             (nid, m2) = new_id c m1;
             skb' = skb\<lparr>skb_prim := PH_DATA_REQ, skb_id := nid, skb_data := d\<rparr>;
             m3 = m2\<lparr>sendq := sendq m2 @ [skb']\<rparr>
         in Inr (do_send c e m3)))"

subsection \<open>The frame codec\<close>

text \<open>
  The eight octets \<^verbatim>\<open>bp[0..7]\<close> that \<^verbatim>\<open>put_tei_msg\<close> builds; \<open>net\<close> is the bit
  \<^verbatim>\<open>FLG_LAPD_NET\<close> of the sending entity \<^verbatim>\<open>tm->l2\<close>, the entity at position \<open>i\<close>. \<open>ri\<close> is an \<^verbatim>\<open>unsigned int\<close> and \<open>m_id\<close>,
  \<open>tei\<close> are \<^verbatim>\<open>u_char\<close>; every assignment to \<^verbatim>\<open>bp[i]\<close> keeps the low eight bits.
\<close>

definition tei_msg_bytes :: "hdr \<Rightarrow> bool \<Rightarrow> u_char \<Rightarrow> u_int \<Rightarrow> u_char \<Rightarrow> u_char list" where
  "tei_msg_bytes c net m_id ri tei =
     (let bp0 = (push_bit 2 (of_nat (TEI_SAPI c)) :: u_char);
          bp0' = (if net then bp0 OR 2 else bp0)
      in [bp0',
          push_bit 1 (of_nat GROUP_TEI) OR 1,
          of_nat (UI c),
          TEI_ENTITY_ID,
          ucast (drop_bit 8 ri),
          ucast (ri AND 0xff),
          m_id,
          push_bit 1 tei OR 1])"

text \<open>
  Modelled from the spec: \<^verbatim>\<open>_alloc_mISDN_skb\<close> (mISDNif.h, missing) builds the buffer
  with the given primitive, id and octets; the spec's encoder always produces its frame, so
  the result is never NULL.
\<close>

definition alloc_mISDN_skb :: "prim \<Rightarrow> u_int \<Rightarrow> u_char list \<Rightarrow> sk_buff option" where
  "alloc_mISDN_skb p hid bp = Some \<lparr>skb_prim = p, skb_id = hid, skb_data = bp\<rparr>"

definition put_tei_msg ::
    "hdr \<Rightarrow> env \<Rightarrow> mISDNmanager \<Rightarrow> nat \<Rightarrow> u_char \<Rightarrow> u_int \<Rightarrow> u_char \<Rightarrow> mISDNmanager" where
  "put_tei_msg c e m i m_id ri tei =
     (let bp = tei_msg_bytes c (FLG_LAPD_NET (mgr_layer2 m ! i)) m_id ri tei;
          (nid, m1) = new_id c m
      in case alloc_mISDN_skb PH_DATA_REQ nid bp of
           None \<Rightarrow> m1
         | Some skb \<Rightarrow> mgr_send_down c e m1 skb)"

text \<open>
  The structural checks at the head of \<^verbatim>\<open>ph_data_ind\<close>, in the source's order; \<open>True\<close>
  when none of them jumps to \<^verbatim>\<open>done\<close>.
\<close>

definition frame_checks :: "hdr \<Rightarrow> u_char list \<Rightarrow> bool" where
  "frame_checks c d =
     (if length d < 8 then False
      else if unat (drop_bit 2 (d ! 0)) \<noteq> TEI_SAPI c then False
      else if d ! 0 AND 1 \<noteq> 0 then False
      else if d ! 1 AND 1 = 0 then False
      else if unat (drop_bit 1 (d ! 1)) \<noteq> GROUP_TEI then False
      else if unat (d ! 2 AND 0xef) \<noteq> UI c then False
      else if d ! 3 \<noteq> TEI_ENTITY_ID then False
      else True)"

text \<open>
  The \<^verbatim>\<open>switch (mt)\<close> of \<^verbatim>\<open>ph_data_ind\<close>: \<open>Some True\<close> for the types accepted when
  \<^verbatim>\<open>MGR_OPT_NETWORK\<close> is set, \<open>Some False\<close> for those accepted when it is clear, \<open>None\<close>
  for the default case.
\<close>

definition mt_for_network :: "u_char \<Rightarrow> bool option" where
  "mt_for_network mt =
     (if mt = ID_REQUEST \<or> mt = ID_CHK_RES \<or> mt = ID_VERIFY then Some True
      else if mt = ID_ASSIGNED \<or> mt = ID_DENIED \<or> mt = ID_CHK_REQ \<or> mt = ID_REMOVE then Some False
      else None)"

text \<open>
  What the handlers read from \<open>dp = &skb->data[4]\<close>: \<^verbatim>\<open>ri = (*dp++ << 8) + *dp++\<close> and,
  one octet further, \<^verbatim>\<open>tei = *dp >> 1\<close> (in \<^verbatim>\<open>tei_id_chk_req\<close> and \<^verbatim>\<open>tei_id_remove\<close>
  \<^verbatim>\<open>*(dp+3) >> 1\<close>, the same octet).
\<close>

definition dp_ri :: "u_char list \<Rightarrow> int" where
  "dp_ri dp = uint (dp ! 0) * 256 + uint (dp ! 1)"

definition dp_tei :: "u_char list \<Rightarrow> int" where
  "dp_tei dp = uint (drop_bit 1 (dp ! 3))"

text \<open>
  The decoder in the spec's words: a frame that passes the structural checks and carries
  one of the seven message types yields its type, reference value and tei.
\<close>

definition decode :: "hdr \<Rightarrow> u_char list \<Rightarrow> (u_char \<times> int \<times> int) option" where
  "decode c d =
     (if \<not> frame_checks c d then None
      else case mt_for_network (d ! 6) of
             None \<Rightarrow> None
           | Some _ \<Rightarrow> Some (d ! 6, dp_ri (drop 4 d), dp_tei (drop 4 d)))"

subsection \<open>Sessions, timers and layer 2\<close>

definition upd_l2 :: "mISDNmanager \<Rightarrow> nat \<Rightarrow> (layer2 \<Rightarrow> layer2) \<Rightarrow> mISDNmanager" where
  "upd_l2 m i f = m\<lparr>mgr_layer2 := (mgr_layer2 m)[i := f (mgr_layer2 m ! i)]\<rparr>"

definition upd_tm :: "mISDNmanager \<Rightarrow> nat \<Rightarrow> (teimgr \<Rightarrow> teimgr) \<Rightarrow> mISDNmanager" where
  "upd_tm m i f = upd_l2 m i (\<lambda>l. l\<lparr>l2_tm := f (l2_tm l)\<rparr>)"

definition tm_of :: "mISDNmanager \<Rightarrow> nat \<Rightarrow> teimgr" where
  "tm_of m i = l2_tm (mgr_layer2 m ! i)"

definition tei_of :: "mISDNmanager \<Rightarrow> nat \<Rightarrow> int" where
  "tei_of m i = l2_tei (mgr_layer2 m ! i)"

text \<open>\<^verbatim>\<open>random_ri\<close>: sixteen random bits, returned as \<^verbatim>\<open>unsigned int\<close>.\<close>

definition random_ri :: "env \<Rightarrow> mISDNmanager \<Rightarrow> u_int \<times> mISDNmanager" where
  "random_ri e m = (ucast (rand e (rnd_used m)), m\<lparr>rnd_used := Suc (rnd_used m)\<rparr>)"

text \<open>
  Modelled from the spec: the FSM and timer service of fsm.c (missing). The spec's
  collaborator schedules a timer that later fires \<open>TimerExpired\<close> into the owning session
  at most once, and cancels it; a state change sets the state.
  \<^verbatim>\<open>mISDN_FsmAddTimer\<close> leaves a pending timer pending.
\<close>

definition mISDN_FsmChangeState :: "mISDNmanager \<Rightarrow> nat \<Rightarrow> tei_state \<Rightarrow> mISDNmanager" where
  "mISDN_FsmChangeState m i st = upd_tm m i (\<lambda>t. t\<lparr>tm_state := st\<rparr>)"

definition mISDN_FsmAddTimer :: "mISDNmanager \<Rightarrow> nat \<Rightarrow> mISDNmanager" where
  "mISDN_FsmAddTimer m i = upd_tm m i (\<lambda>t. t\<lparr>tm_timer := True\<rparr>)"

definition mISDN_FsmDelTimer :: "mISDNmanager \<Rightarrow> nat \<Rightarrow> mISDNmanager" where
  "mISDN_FsmDelTimer m i = upd_tm m i (\<lambda>t. t\<lparr>tm_timer := False\<rparr>)"

text \<open>
  Modelled from the spec: \<^verbatim>\<open>tei_l2\<close> of layer2.c (missing) notifies the owner of entity
  \<open>j\<close>: \<^verbatim>\<open>MDL_ASSIGN_REQ\<close> is \<open>AssignmentComplete(tei)\<close> and sets the entity's tei to the
  argument, \<^verbatim>\<open>MDL_ERROR_RSP\<close> is \<open>AssignmentFailed\<close>, \<^verbatim>\<open>MDL_REMOVE_REQ\<close> is
  \<open>RemovalRequested\<close>. How the owner reacts to the last two is not part of the spec, and
  the model records the call only.
\<close>

definition tei_l2 :: "mISDNmanager \<Rightarrow> nat \<Rightarrow> mdl_cmd \<Rightarrow> int \<Rightarrow> mISDNmanager" where
  "tei_l2 m j cmd arg =
     (let m1 = m\<lparr>l2_log := l2_log m @ [(j, cmd, arg)]\<rparr>
      in if cmd = MDL_ASSIGN_REQ then upd_l2 m1 j (\<lambda>l. l\<lparr>l2_tei := arg\<rparr>) else m1)"

text \<open>\<^verbatim>\<open>findtei\<close>: the position of the first entity of the list that matches.\<close>

fun findtei_from :: "layer2 list \<Rightarrow> nat \<Rightarrow> int \<Rightarrow> nat option" where
  "findtei_from [] k tei = None"
| "findtei_from (l2 # rest) k tei =
     (if l2_sapi l2 = 0 \<and> l2_tei l2 > 0 \<and> l2_tei l2 \<noteq> int GROUP_TEI \<and> l2_tei l2 = tei
      then Some k else findtei_from rest (Suc k) tei)"

definition findtei :: "mISDNmanager \<Rightarrow> int \<Rightarrow> nat option" where
  "findtei m tei = findtei_from (mgr_layer2 m) 0 tei"

subsection \<open>The handlers of the state machine\<close>

definition tei_id_request :: "hdr \<Rightarrow> env \<Rightarrow> mISDNmanager \<Rightarrow> nat \<Rightarrow> mISDNmanager" where
  "tei_id_request c e m i =
     (if tei_of m i \<noteq> int GROUP_TEI then m
      else
        (let (r, m1) = random_ri e m;
             m2 = upd_tm m1 i (\<lambda>t. t\<lparr>tm_ri := uint r\<rparr>);
             m3 = put_tei_msg c e m2 i ID_REQUEST (word_of_int (tm_ri (tm_of m2 i))) (of_nat GROUP_TEI);
             m4 = mISDN_FsmChangeState m3 i ST_TEI_IDREQ;
             m5 = mISDN_FsmAddTimer m4 i
         in upd_tm m5 i (\<lambda>t. t\<lparr>tm_nval := 3\<rparr>)))"

definition tei_assign_req :: "hdr \<Rightarrow> env \<Rightarrow> mISDNmanager \<Rightarrow> nat \<Rightarrow> u_char list \<Rightarrow> mISDNmanager" where
  "tei_assign_req c e m i dp =
     (if tei_of m i = int GROUP_TEI then m
      else
        (let m1 = upd_tm m i (\<lambda>t. t\<lparr>tm_ri := uint (dp ! 0) * 256\<rparr>);
             m2 = upd_tm m1 i (\<lambda>t. t\<lparr>tm_ri := tm_ri t + uint (dp ! 1)\<rparr>);
             m3 = put_tei_msg c e m2 i ID_ASSIGNED (word_of_int (tm_ri (tm_of m2 i)))
                    (word_of_int (tei_of m2 i))
         in mISDN_FsmChangeState m3 i ST_TEI_NOP))"

definition tei_id_assign :: "mISDNmanager \<Rightarrow> nat \<Rightarrow> u_char list \<Rightarrow> mISDNmanager" where
  "tei_id_assign m i dp =
     (let ri = dp_ri dp; tei = dp_tei dp in
      case findtei m tei of
        Some j \<Rightarrow> (if ri \<noteq> tm_ri (tm_of m j) then tei_l2 m j MDL_ERROR_RSP 0 else m)
      | None \<Rightarrow>
          (if ri = tm_ri (tm_of m i)
           then
             (let m1 = mISDN_FsmDelTimer m i;
                  m2 = mISDN_FsmChangeState m1 i ST_TEI_NOP
              in tei_l2 m2 i MDL_ASSIGN_REQ tei)
           else m))"

definition tei_id_denied :: "mISDNmanager \<Rightarrow> nat \<Rightarrow> u_char list \<Rightarrow> mISDNmanager" where
  "tei_id_denied m i dp = m"

definition tei_id_chk_req :: "hdr \<Rightarrow> env \<Rightarrow> mISDNmanager \<Rightarrow> nat \<Rightarrow> u_char list \<Rightarrow> mISDNmanager" where
  "tei_id_chk_req c e m i dp =
     (let tei = dp_tei dp in
      if tei_of m i \<noteq> int GROUP_TEI \<and> (tei = int GROUP_TEI \<or> tei = tei_of m i)
      then
        (let m1 = mISDN_FsmDelTimer m i;
             m2 = mISDN_FsmChangeState m1 i ST_TEI_NOP;
             (r, m3) = random_ri e m2
         in put_tei_msg c e m3 i ID_CHK_RES r (word_of_int (tei_of m3 i)))
      else m)"

definition tei_id_remove :: "mISDNmanager \<Rightarrow> nat \<Rightarrow> u_char list \<Rightarrow> mISDNmanager" where
  "tei_id_remove m i dp =
     (let tei = dp_tei dp in
      if tei_of m i \<noteq> int GROUP_TEI \<and> (tei = int GROUP_TEI \<or> tei = tei_of m i)
      then
        (let m1 = mISDN_FsmDelTimer m i;
             m2 = mISDN_FsmChangeState m1 i ST_TEI_NOP
         in tei_l2 m2 i MDL_REMOVE_REQ 0)
      else m)"

definition tei_id_verify :: "hdr \<Rightarrow> env \<Rightarrow> mISDNmanager \<Rightarrow> nat \<Rightarrow> mISDNmanager" where
  "tei_id_verify c e m i =
     (let m1 = put_tei_msg c e m i ID_VERIFY 0 (word_of_int (tei_of m i));
          m2 = mISDN_FsmChangeState m1 i ST_TEI_IDVERIFY;
          m3 = mISDN_FsmAddTimer m2 i
      in upd_tm m3 i (\<lambda>t. t\<lparr>tm_nval := 2\<rparr>))"

definition tei_id_req_tout :: "hdr \<Rightarrow> env \<Rightarrow> mISDNmanager \<Rightarrow> nat \<Rightarrow> mISDNmanager" where
  "tei_id_req_tout c e m i =
     (let m1 = upd_tm m i (\<lambda>t. t\<lparr>tm_nval := tm_nval t - 1\<rparr>) in
      if tm_nval (tm_of m1 i) \<noteq> 0
      then
        (let (r, m2) = random_ri e m1;
             m3 = upd_tm m2 i (\<lambda>t. t\<lparr>tm_ri := uint r\<rparr>);
             m4 = put_tei_msg c e m3 i ID_REQUEST (word_of_int (tm_ri (tm_of m3 i))) (of_nat GROUP_TEI)
         in mISDN_FsmAddTimer m4 i)
      else
        (let m2 = tei_l2 m1 i MDL_ERROR_RSP 0
         in mISDN_FsmChangeState m2 i ST_TEI_NOP))"

definition tei_id_ver_tout :: "hdr \<Rightarrow> env \<Rightarrow> mISDNmanager \<Rightarrow> nat \<Rightarrow> mISDNmanager" where
  "tei_id_ver_tout c e m i =
     (let m1 = upd_tm m i (\<lambda>t. t\<lparr>tm_nval := tm_nval t - 1\<rparr>) in
      if tm_nval (tm_of m1 i) \<noteq> 0
      then
        (let m2 = put_tei_msg c e m1 i ID_VERIFY 0 (word_of_int (tei_of m1 i))
         in mISDN_FsmAddTimer m2 i)
      else
        (let m2 = tei_l2 m1 i MDL_REMOVE_REQ 0
         in mISDN_FsmChangeState m2 i ST_TEI_NOP))"

subsection \<open>The jump table and the delivery of events\<close>

datatype tei_fn =
  FN_tei_id_request | FN_tei_id_test_dup | FN_tei_assign_req | FN_tei_id_verify
  | FN_tei_id_remove | FN_tei_id_chk_req | FN_tei_id_req_tout | FN_tei_id_assign
  | FN_tei_id_denied | FN_tei_id_ver_tout

definition TeiFnList :: "(tei_state \<times> tei_event \<times> tei_fn) list" where
  "TeiFnList =
     [(ST_TEI_NOP, EV_IDREQ, FN_tei_id_request),
      (ST_TEI_NOP, EV_ASSIGN, FN_tei_id_test_dup),
      (ST_TEI_NOP, EV_ASSIGN_REQ, FN_tei_assign_req),
      (ST_TEI_NOP, EV_VERIFY, FN_tei_id_verify),
      (ST_TEI_NOP, EV_REMOVE, FN_tei_id_remove),
      (ST_TEI_NOP, EV_CHKREQ, FN_tei_id_chk_req),
      (ST_TEI_IDREQ, EV_TIMER, FN_tei_id_req_tout),
      (ST_TEI_IDREQ, EV_ASSIGN, FN_tei_id_assign),
      (ST_TEI_IDREQ, EV_DENIED, FN_tei_id_denied),
      (ST_TEI_IDVERIFY, EV_TIMER, FN_tei_id_ver_tout),
      (ST_TEI_IDVERIFY, EV_REMOVE, FN_tei_id_remove),
      (ST_TEI_IDVERIFY, EV_CHKREQ, FN_tei_id_chk_req)]"

text \<open>
  Modelled from the spec: the jump matrix that \<^verbatim>\<open>mISDN_FsmNew\<close> (fsm.c, missing) builds
  from the table; an event that the table does not list for the current state is ignored.
\<close>

fun jump :: "(tei_state \<times> tei_event \<times> tei_fn) list \<Rightarrow> tei_state \<Rightarrow> tei_event \<Rightarrow> tei_fn option" where
  "jump [] st ev = None"
| "jump ((s, v, f) # rest) st ev = (if s = st \<and> v = ev then Some f else jump rest st ev)"

text \<open>
  \<^verbatim>\<open>mISDN_FsmEvent(&l2->tm->tei_m, EV_VERIFY, NULL)\<close>, the event that
  \<^verbatim>\<open>tei_id_test_dup\<close> raises on another session from inside its own handling. The table
  has one row for \<^verbatim>\<open>EV_VERIFY\<close>; its handler raises no further event.
\<close>

definition raise_EV_VERIFY :: "hdr \<Rightarrow> env \<Rightarrow> mISDNmanager \<Rightarrow> nat \<Rightarrow> mISDNmanager" where
  "raise_EV_VERIFY c e m j =
     (case jump TeiFnList (tm_state (tm_of m j)) EV_VERIFY of
        Some FN_tei_id_verify \<Rightarrow> tei_id_verify c e m j
      | _ \<Rightarrow> m)"

definition tei_id_test_dup :: "hdr \<Rightarrow> env \<Rightarrow> mISDNmanager \<Rightarrow> nat \<Rightarrow> u_char list \<Rightarrow> mISDNmanager" where
  "tei_id_test_dup c e m i dp =
     (let ri = dp_ri dp; tei = dp_tei dp in
      case findtei m tei of
        Some j \<Rightarrow> (if ri \<noteq> tm_ri (tm_of m j) then raise_EV_VERIFY c e m j else m)
      | None \<Rightarrow> m)"

fun run_fn :: "hdr \<Rightarrow> env \<Rightarrow> tei_fn \<Rightarrow> mISDNmanager \<Rightarrow> nat \<Rightarrow> u_char list \<Rightarrow> mISDNmanager" where
  "run_fn c e FN_tei_id_request m i dp = tei_id_request c e m i"
| "run_fn c e FN_tei_id_test_dup m i dp = tei_id_test_dup c e m i dp"
| "run_fn c e FN_tei_assign_req m i dp = tei_assign_req c e m i dp"
| "run_fn c e FN_tei_id_verify m i dp = tei_id_verify c e m i"
| "run_fn c e FN_tei_id_remove m i dp = tei_id_remove m i dp"
| "run_fn c e FN_tei_id_chk_req m i dp = tei_id_chk_req c e m i dp"
| "run_fn c e FN_tei_id_req_tout m i dp = tei_id_req_tout c e m i"
| "run_fn c e FN_tei_id_assign m i dp = tei_id_assign m i dp"
| "run_fn c e FN_tei_id_denied m i dp = tei_id_denied m i dp"
| "run_fn c e FN_tei_id_ver_tout m i dp = tei_id_ver_tout c e m i"

definition mISDN_FsmEvent ::
    "hdr \<Rightarrow> env \<Rightarrow> mISDNmanager \<Rightarrow> nat \<Rightarrow> tei_event \<Rightarrow> u_char list \<Rightarrow> mISDNmanager" where
  "mISDN_FsmEvent c e m i ev dp =
     (case jump TeiFnList (tm_state (tm_of m i)) ev of
        None \<Rightarrow> m
      | Some f \<Rightarrow> run_fn c e f m i dp)"

text \<open>
  Modelled from the spec: the expiry of the session's timer (\<^verbatim>\<open>mISDN_FsmExpireTimer\<close> of
  fsm.c, missing). A pending timer fires once: it is no longer pending when \<^verbatim>\<open>EV_TIMER\<close>
  is delivered. Without a pending timer nothing fires.
\<close>

definition FsmExpireTimer :: "hdr \<Rightarrow> env \<Rightarrow> mISDNmanager \<Rightarrow> nat \<Rightarrow> mISDNmanager" where
  "FsmExpireTimer c e m i =
     (if tm_timer (tm_of m i)
      then mISDN_FsmEvent c e (upd_tm m i (\<lambda>t. t\<lparr>tm_timer := False\<rparr>)) i EV_TIMER []
      else m)"

subsection \<open>Inbound dispatch and the interface to layer 2\<close>

definition tei_ph_data_ind ::
    "hdr \<Rightarrow> env \<Rightarrow> mISDNmanager \<Rightarrow> nat \<Rightarrow> u_char \<Rightarrow> u_char list \<Rightarrow> mISDNmanager" where
  "tei_ph_data_ind c e m i mt dp =
     (if FLG_FIXED_TEI (mgr_layer2 m ! i) \<and> \<not> FLG_LAPD_NET (mgr_layer2 m ! i) then m
      else if mt = ID_ASSIGNED then mISDN_FsmEvent c e m i EV_ASSIGN dp
      else if mt = ID_DENIED then mISDN_FsmEvent c e m i EV_DENIED dp
      else if mt = ID_CHK_REQ then mISDN_FsmEvent c e m i EV_CHKREQ dp
      else if mt = ID_REMOVE then mISDN_FsmEvent c e m i EV_REMOVE dp
      else m)"

definition new_tei_req :: "mISDNmanager \<Rightarrow> u_char list \<Rightarrow> mISDNmanager" where
  "new_tei_req m dp = m"

datatype ret = RET_0 | EINVAL | EPROTONOSUPPORT | ENOMEM

text \<open>
  \<^verbatim>\<open>ph_data_ind\<close>: the returned value and the manager afterwards. The loop over the
  entity list visits the positions in order; the handlers change entities, never the list.
\<close>

definition ph_data_ind :: "hdr \<Rightarrow> env \<Rightarrow> mISDNmanager \<Rightarrow> u_char list \<Rightarrow> ret \<times> mISDNmanager" where
  "ph_data_ind c e m d =
     (if \<not> frame_checks c d then (EINVAL, m)
      else
        (let mt = d ! 6 in
         case mt_for_network mt of
           None \<Rightarrow> (EINVAL, m)
         | Some net \<Rightarrow>
             if net \<noteq> MGR_OPT_NETWORK m then (EINVAL, m)
             else if mt = ID_REQUEST then (RET_0, new_tei_req m (drop 4 d))
             else (RET_0, fold (\<lambda>i m'. tei_ph_data_ind c e m' i mt (drop 4 d))
                            [0..<length (mgr_layer2 m)] m)))"

definition l2_tei :: "hdr \<Rightarrow> env \<Rightarrow> mISDNmanager \<Rightarrow> nat \<Rightarrow> mdl_cmd \<Rightarrow> mISDNmanager" where
  "l2_tei c e m i cmd =
     (if cmd = MDL_ASSIGN_IND then
        (if FLG_FIXED_TEI (mgr_layer2 m ! i) then tei_l2 m i MDL_ASSIGN_REQ (tei_of m i)
         else mISDN_FsmEvent c e m i EV_IDREQ [])
      else if cmd = MDL_ERROR_IND then
        (if \<not> FLG_FIXED_TEI (mgr_layer2 m ! i) then mISDN_FsmEvent c e m i EV_VERIFY [] else m)
      else m)"

definition release_tei :: "mISDNmanager \<Rightarrow> nat \<Rightarrow> mISDNmanager" where
  "release_tei m i =
     (let m1 = mISDN_FsmDelTimer m i
      in m1\<lparr>mgr_layer2 := take i (mgr_layer2 m1) @ drop (Suc i) (mgr_layer2 m1)\<rparr>)"

text \<open>
  \<^verbatim>\<open>create_teimgr\<close>; the request is the protocol and the address fields
  \<^verbatim>\<open>crq->adr.sapi\<close>, \<^verbatim>\<open>crq->adr.tei\<close>, and \<open>nrbchan\<close> is \<^verbatim>\<open>mgr->ch.dev->nrbchan\<close>.
  The options are the bits \<^verbatim>\<open>OPTION_L2_FIXEDTEI\<close>, \<^verbatim>\<open>OPTION_L2_PTP\<close>,
  \<^verbatim>\<open>OPTION_L2_PMX\<close>. \<^verbatim>\<open>kzalloc\<close> of the session is taken to succeed; a new session
  is all zero but for the fields the function sets.
\<close>

definition create_teimgr ::
    "env \<Rightarrow> mISDNmanager \<Rightarrow> protocol \<Rightarrow> nat \<Rightarrow> nat \<Rightarrow> nat \<Rightarrow> ret \<times> mISDNmanager" where
  "create_teimgr e m proto adr_sapi adr_tei nrbchan =
     (if adr_sapi \<noteq> 0 then (EINVAL, m)
      else if adr_tei > GROUP_TEI then (EINVAL, m)
      else if MGR_OPT_NETWORK m \<and> proto = ISDN_P_LAPD_TE then (EPROTONOSUPPORT, m)
      else if MGR_OPT_USER m \<and> proto = ISDN_P_LAPD_NT then (EPROTONOSUPPORT, m)
      else if MGR_OPT_USER m \<and> adr_tei \<ge> 64 \<and> adr_tei < GROUP_TEI then (EINVAL, m)
      else
        (case create_l2 e proto (adr_tei < 64, adr_tei = 0, nrbchan > 2) (int adr_tei) of
           None \<Rightarrow> (ENOMEM, m)
         | Some l2 \<Rightarrow>
             (let tm = \<lparr>tm_state = ST_TEI_NOP, tm_timer = False, tm_ri = 0, tm_nval = 0,
                        tm_tval = (if proto = ISDN_P_LAPD_TE then 1000 else 2000)\<rparr>
              in (RET_0, m\<lparr>mgr_layer2 := mgr_layer2 m @ [l2\<lparr>l2_tm := tm\<rparr>]\<rparr>))))"

text \<open>
  \<^verbatim>\<open>mgr_send\<close>, the manager's entry point for messages from the channel; the argument is
  the message with its head. A \<^verbatim>\<open>PH_DATA_CNF\<close> is the transport's confirmation of the
  buffer with that id, which is no longer in flight then.
\<close>

definition confirm :: "mISDNmanager \<Rightarrow> u_int \<Rightarrow> mISDNmanager" where
  "confirm m hid = m\<lparr>ch_inflight := filter (\<lambda>s. skb_id s \<noteq> hid) (ch_inflight m)\<rparr>"

definition mgr_send :: "hdr \<Rightarrow> env \<Rightarrow> mISDNmanager \<Rightarrow> sk_buff \<Rightarrow> ret \<times> mISDNmanager" where
  "mgr_send c e m skb =
     (case skb_prim skb of
        PH_DATA_IND \<Rightarrow> ph_data_ind c e m (skb_data skb)
      | PH_DATA_CNF \<Rightarrow> (RET_0, do_ack c e (confirm m (skb_id skb)) (skb_id skb))
      | PH_ACTIVATE_IND \<Rightarrow> (RET_0, do_send c e (m\<lparr>MGR_PH_ACTIVE := True\<rparr>))
      | PH_DEACTIVATE_IND \<Rightarrow> (RET_0, m\<lparr>MGR_PH_ACTIVE := False\<rparr>)
      | DL_UNITDATA_REQ \<Rightarrow>
          (case dl_unit_data c e m skb of Inl _ \<Rightarrow> (EINVAL, m) | Inr m' \<Rightarrow> (RET_0, m'))
      | _ \<Rightarrow> (EINVAL, m))"

text \<open>\<^verbatim>\<open>mISDN_create_manager\<close>: \<^verbatim>\<open>kzalloc\<close> clears every field it does not set.\<close>

definition mISDN_create_manager :: "hdr \<Rightarrow> mISDNmanager" where
  "mISDN_create_manager c =
     \<lparr>mgr_layer2 = [], MGR_OPT_NETWORK = False, MGR_OPT_USER = False,
      MGR_PH_ACTIVE = False, MGR_PH_NOTREADY = False, sendq = [],
      nextid = 1, lastid = MISDN_ID_NONE c,
      ch_accepted = [], ch_inflight = [], kfreed = [], act_req = 0, l2_log = [],
      rnd_used = 0\<rparr>"

section \<open>Notions used by the properties\<close>

subsection \<open>The outbound queue\<close>

text \<open>
  Every id that \<^verbatim>\<open>new_id\<close> builds contains the bits of \<^verbatim>\<open>GROUP_TEI << 8\<close> and of
  \<^verbatim>\<open>TEI_SAPI\<close>. The none value is told apart from all of them when it lacks one of these
  bits.
\<close>

definition id_tag :: "hdr \<Rightarrow> u_int" where
  "id_tag c = push_bit 8 (of_nat GROUP_TEI) OR of_nat (TEI_SAPI c)"

definition none_is_no_id :: "hdr \<Rightarrow> bool" where
  "none_is_no_id c = (MISDN_ID_NONE c AND id_tag c \<noteq> id_tag c)"

text \<open>
  The invariant of the queue: \<^verbatim>\<open>MGR_PH_NOTREADY\<close> is set exactly when \<^verbatim>\<open>lastid\<close> is
  not the none value, no queued buffer carries the none value as its id, and the buffers in
  flight are the one with id \<^verbatim>\<open>lastid\<close> while \<^verbatim>\<open>MGR_PH_NOTREADY\<close> is set and none
  otherwise.
\<close>

definition qinv :: "hdr \<Rightarrow> mISDNmanager \<Rightarrow> bool" where
  "qinv c m =
     ((MGR_PH_NOTREADY m = (lastid m \<noteq> MISDN_ID_NONE c)) \<and>
      list_all (\<lambda>s. skb_id s \<noteq> MISDN_ID_NONE c) (sendq m) \<and>
      map skb_id (ch_inflight m) = (if MGR_PH_NOTREADY m then [lastid m] else []))"

text \<open>All buffers the manager was ever given to send: queued, accepted or released.\<close>

definition frames :: "mISDNmanager \<Rightarrow> sk_buff multiset" where
  "frames m = mset (sendq m) + mset (ch_accepted m) + mset (kfreed m)"

text \<open>The buffer that \<^verbatim>\<open>put_tei_msg\<close> builds for the session at position \<open>i\<close>.\<close>

definition tei_skb :: "hdr \<Rightarrow> mISDNmanager \<Rightarrow> nat \<Rightarrow> u_char \<Rightarrow> u_int \<Rightarrow> u_char \<Rightarrow> sk_buff" where
  "tei_skb c m i m_id ri tei =
     \<lparr>skb_prim = PH_DATA_REQ, skb_id = fst (new_id c m),
      skb_data = tei_msg_bytes c (FLG_LAPD_NET (mgr_layer2 m ! i)) m_id ri tei\<rparr>"

definition valid_mt :: "u_char \<Rightarrow> bool" where
  "valid_mt mt = (mt = ID_REQUEST \<or> mt = ID_ASSIGNED \<or> mt = ID_DENIED \<or> mt = ID_CHK_REQ
      \<or> mt = ID_CHK_RES \<or> mt = ID_REMOVE \<or> mt = ID_VERIFY)"

subsection \<open>Sessions and timers\<close>

text \<open>A session's timer is pending exactly in the two states that wait for an answer.\<close>

definition session_ok :: "teimgr \<Rightarrow> bool" where
  "session_ok t = (tm_timer t = (tm_state t = ST_TEI_IDREQ \<or> tm_state t = ST_TEI_IDVERIFY))"

definition timer_inv :: "mISDNmanager \<Rightarrow> bool" where
  "timer_inv m = list_all (\<lambda>l. session_ok (l2_tm l)) (mgr_layer2 m)"

subsection \<open>Message classes, fan-out and notifications\<close>

text \<open>
  The two classes of message types in the spec's words: those directed at a terminal-side
  manager (sent by the network) and those directed at a network-side manager.
\<close>

definition network_directed :: "u_char \<Rightarrow> bool" where
  "network_directed mt = (mt = ID_ASSIGNED \<or> mt = ID_DENIED \<or> mt = ID_CHK_REQ \<or> mt = ID_REMOVE)"

definition terminal_directed :: "u_char \<Rightarrow> bool" where
  "terminal_directed mt = (mt = ID_REQUEST \<or> mt = ID_CHK_RES \<or> mt = ID_VERIFY)"

text \<open>The loop of \<^verbatim>\<open>ph_data_ind\<close> that hands a message to every entity's session.\<close>

definition fan_out :: "hdr \<Rightarrow> env \<Rightarrow> mISDNmanager \<Rightarrow> u_char \<Rightarrow> u_char list \<Rightarrow> mISDNmanager" where
  "fan_out c e m mt dp =
     fold (\<lambda>i m'. tei_ph_data_ind c e m' i mt dp) [0..<length (mgr_layer2 m)] m"

text \<open>The \<open>AssignmentFailed\<close> notifications (\<^verbatim>\<open>MDL_ERROR_RSP\<close>) issued so far.\<close>

definition assignment_failed :: "mISDNmanager \<Rightarrow> (nat \<times> mdl_cmd \<times> int) list" where
  "assignment_failed m = filter (\<lambda>x. fst (snd x) = MDL_ERROR_RSP) (l2_log m)"

subsection \<open>Reachable managers\<close>

text \<open>
  The states of a manager: it is created, its role is configured, entities are created and
  released, the owner of an entity changes the entity's tei, the channel delivers messages
  (\<^verbatim>\<open>mgr_send\<close>: inbound frames, confirmations, activation and deactivation, unit data),
  layer 2 issues commands (\<^verbatim>\<open>l2_tei\<close>), events other than \<^verbatim>\<open>EV_TIMER\<close> are delivered
  to a session, a pending timer expires, a session sends a message, and \<^verbatim>\<open>do_send\<close> runs.
  The surroundings may answer differently at every step.
\<close>

inductive reachable :: "hdr \<Rightarrow> mISDNmanager \<Rightarrow> bool" for c :: hdr where
  r_init: "reachable c (mISDN_create_manager c)"
| r_role: "reachable c m \<Longrightarrow> reachable c (m\<lparr>MGR_OPT_NETWORK := n, MGR_OPT_USER := u\<rparr>)"
| r_create: "reachable c m \<Longrightarrow> reachable c (snd (create_teimgr e m p s t n))"
| r_release: "reachable c m \<Longrightarrow> i < length (mgr_layer2 m) \<Longrightarrow> reachable c (release_tei m i)"
| r_owner: "reachable c m \<Longrightarrow> reachable c (upd_l2 m i (\<lambda>l. l\<lparr>l2_tei := t\<rparr>))"
| r_mgr_send: "reachable c m \<Longrightarrow> reachable c (snd (mgr_send c e m s))"
| r_l2_tei: "reachable c m \<Longrightarrow> i < length (mgr_layer2 m) \<Longrightarrow> reachable c (l2_tei c e m i cmd)"
| r_event: "reachable c m \<Longrightarrow> i < length (mgr_layer2 m) \<Longrightarrow> ev \<noteq> EV_TIMER \<Longrightarrow>
            reachable c (mISDN_FsmEvent c e m i ev dp)"
| r_timer: "reachable c m \<Longrightarrow> i < length (mgr_layer2 m) \<Longrightarrow> reachable c (FsmExpireTimer c e m i)"
| r_put: "reachable c m \<Longrightarrow> i < length (mgr_layer2 m) \<Longrightarrow>
          reachable c (put_tei_msg c e m i m_id ri tei)"
| r_do_send: "reachable c m \<Longrightarrow> reachable c (do_send c e m)"

subsection \<open>Example inputs\<close>

text \<open>
  Values for the examples: header constants as mainline Linux defines them, a transport
  that accepts every buffer and one that refuses every buffer, and a \<^verbatim>\<open>create_l2\<close> that
  sets the flags from the protocol and the options.
\<close>

definition hdr0 :: hdr where
  "hdr0 = \<lparr>TEI_SAPI = 63, UI = 3, MISDN_ID_NONE = 0xFFFE\<rparr>"

definition tm_zero :: teimgr where
  "tm_zero = \<lparr>tm_state = ST_TEI_NOP, tm_timer = False, tm_ri = 0, tm_nval = 0, tm_tval = 0\<rparr>"

definition create_l2_0 :: "protocol \<Rightarrow> bool \<times> bool \<times> bool \<Rightarrow> int \<Rightarrow> layer2 option" where
  "create_l2_0 p opt t =
     Some \<lparr>l2_sapi = 0, l2_tei = t, FLG_FIXED_TEI = fst opt,
           FLG_LAPD_NET = (p = ISDN_P_LAPD_NT), l2_tm = tm_zero\<rparr>"

definition env0 :: env where
  "env0 = \<lparr>rand = (\<lambda>n. 0x1234), ch_recv = (\<lambda>s. 0), create_l2 = create_l2_0\<rparr>"

definition env_refuse :: env where
  "env_refuse = \<lparr>rand = (\<lambda>n. 0x1234), ch_recv = (\<lambda>s. 1), create_l2 = create_l2_0\<rparr>"

text \<open>
  A terminal-side manager with one entity that asks for a dynamic tei (\<open>ex_mgr1\<close>), the
  same after layer 2 asked for the assignment (\<open>ex_mgr2\<close>), and after the link came up
  (\<open>ex_mgr3\<close>).
\<close>

definition ex_mgr1 :: mISDNmanager where
  "ex_mgr1 = snd (create_teimgr env0 (mISDN_create_manager hdr0) ISDN_P_LAPD_TE 0 127 2)"

definition ex_mgr2 :: mISDNmanager where
  "ex_mgr2 = l2_tei hdr0 env0 ex_mgr1 0 MDL_ASSIGN_IND"

definition ex_mgr3 :: mISDNmanager where
  "ex_mgr3 = snd (mgr_send hdr0 env0 ex_mgr2 \<lparr>skb_prim = PH_ACTIVATE_IND, skb_id = 0, skb_data = []\<rparr>)"

text \<open>
  \<open>ex_mgr4\<close>: the first timeout of the request, whose retransmission waits in the queue
  behind the frame in flight. \<open>ex_frame_assigned\<close>: an \<^verbatim>\<open>ID_ASSIGNED\<close> frame with
  \<open>ri = 0x1234\<close> and tei 70. \<open>ex_ver1\<close>, \<open>ex_ver2\<close>: an entity with tei 70, before and
  after layer 2 reported an error and the identity verification started.
\<close>

definition ex_mgr4 :: mISDNmanager where
  "ex_mgr4 = FsmExpireTimer hdr0 env0 ex_mgr3 0"

definition ex_frame_assigned :: "u_char list" where
  "ex_frame_assigned = [0xfc, 0xff, 0x03, 0x0f, 0x12, 0x34, 0x02, 0x8d]"

definition ex_ver1 :: mISDNmanager where
  "ex_ver1 = snd (create_teimgr env0 (mISDN_create_manager hdr0) ISDN_P_LAPD_TE 0 70 2)"

definition ex_ver2 :: mISDNmanager where
  "ex_ver2 = l2_tei hdr0 env0 ex_ver1 0 MDL_ERROR_IND"

section \<open>Auxiliary facts\<close>

lemma tei_rt: "tei \<le> 127 \<Longrightarrow> drop_bit 1 (push_bit 1 (tei::u_char) OR 1) = tei"
proof -
  assume a: "tei \<le> 127"
  then have t: "unat tei \<le> 127" by (simp add: word_le_nat_alt)
  have "unat (drop_bit 1 (push_bit 1 tei OR 1)) = drop_bit 1 (take_bit 8 (push_bit 1 (unat tei)) OR 1)"
    by (simp only: unat_drop_bit_eq unsigned_or_eq unsigned_push_bit_eq unsigned_1) simp
  also have "\<dots> = drop_bit 1 (push_bit 1 (unat tei) OR 1)"
  proof -
    have "push_bit 1 (unat tei) < (2::nat) ^ 8" using t by (simp add: push_bit_eq_mult)
    then have "take_bit 8 (push_bit 1 (unat tei)) = push_bit 1 (unat tei)"
      by (rule take_bit_nat_eq_self)
    then show ?thesis by simp
  qed
  also have "\<dots> = unat tei"
  proof -
    have "push_bit 1 (unat tei) OR 1 = push_bit 1 (unat tei) + 1"
      by (subst or_one_eq) (simp add: push_bit_eq_mult)
    then show ?thesis by (simp add: drop_bit_eq_div push_bit_eq_mult)
  qed
  finally show ?thesis by (simp add: word_unat_eq_iff)
qed

lemma sapi_b: "s < 64 \<Longrightarrow> unat (drop_bit 2 (push_bit 2 (of_nat s :: u_char) OR 2)) = s"
proof -
  assume a: "s < 64"
  have "unat (drop_bit 2 (push_bit 2 (of_nat s :: u_char) OR 2)) = drop_bit 2 (take_bit 8 (push_bit 2 (take_bit 8 s)) OR 2)"
    by (simp only: unat_drop_bit_eq unsigned_or_eq unsigned_push_bit_eq unsigned_of_nat unsigned_numeral) simp
  also have "\<dots> = drop_bit 2 (s * 4)" using a
    by (simp add: take_bit_eq_mod push_bit_eq_mult)
  also have "\<dots> = s" by (simp add: drop_bit_eq_div)
  finally show ?thesis .
qed

lemma sapi_a: "s < 64 \<Longrightarrow> unat (drop_bit 2 (push_bit 2 (of_nat s :: u_char))) = s"
proof -
  assume a: "s < 64"
  have "unat (drop_bit 2 (push_bit 2 (of_nat s :: u_char))) = drop_bit 2 (take_bit 8 (push_bit 2 (take_bit 8 s)))"
    by (simp only: unat_drop_bit_eq unsigned_or_eq unsigned_push_bit_eq unsigned_of_nat unsigned_numeral) simp
  also have "\<dots> = s" using a by (simp add: take_bit_eq_mod push_bit_eq_mult drop_bit_eq_div)
  finally show ?thesis .
qed

lemma ea0: "push_bit 2 (x :: u_char) AND 1 = 0"
  by (rule bit_word_eqI) (auto simp: bit_simps)

lemma ea0b: "(push_bit 2 (x:: u_char) OR 2) AND 1 = 0"
  by (rule bit_word_eqI) (auto simp: bit_simps)

lemma ri_arith: "0 \<le> (x::int) \<Longrightarrow> x \<le> 65535 \<Longrightarrow> x div 256 mod 256 * 256 + x mod 256 = x"
proof -
  assume a: "0 \<le> x" "x \<le> 65535"
  have "x div 256 < 256" using a by linarith
  moreover have "0 \<le> x div 256" using a by simp
  ultimately have "x div 256 mod 256 = x div 256" by simp
  then show ?thesis by simp
qed

lemma ri_rt: "ri \<le> 0xffff \<Longrightarrow> uint (ucast (drop_bit 8 (ri::u_int)) :: u_char) * 256 + uint (ucast (ri AND 0xff) :: u_char) = uint ri"
proof -
  assume a: "ri \<le> 0xffff"
  then have r: "uint ri \<le> 65535" by (simp add: word_le_def)
  have r0: "0 \<le> uint ri" by simp
  have 1: "uint (ucast (drop_bit 8 ri) :: u_char) = take_bit 8 (drop_bit 8 (uint ri))"
    by (simp only: unsigned_ucast_eq unsigned_drop_bit_eq) (simp add: take_bit_drop_bit)
  have 2: "uint (ucast (ri AND 0xff) :: u_char) = take_bit 8 (uint ri AND 255)"
    by (simp only: unsigned_ucast_eq unsigned_and_eq unsigned_numeral) simp
  have 3: "uint ri AND 255 = take_bit 8 (uint ri)"
    using take_bit_eq_mask[of 8 "uint ri"] by (simp add: mask_eq_exp_minus_1)
  have 4: "take_bit 8 (drop_bit 8 (uint ri)) = uint ri div 256 mod 256"
    by (simp add: take_bit_eq_mod drop_bit_eq_div)
  have 5: "take_bit 8 (take_bit 8 (uint ri)) = uint ri mod 256"
    by (simp add: take_bit_eq_mod)
  show ?thesis unfolding 1 2 3 4 5 using r0 r by (rule ri_arith)
qed

lemma grp: "unat (drop_bit 1 (push_bit 1 (of_nat GROUP_TEI) OR 1 :: u_char)) = GROUP_TEI"
  by (simp add: GROUP_TEI_def)
lemma grp1: "(push_bit 1 (of_nat GROUP_TEI) OR 1 :: u_char) AND 1 \<noteq> 0"
  by (simp add: GROUP_TEI_def)

lemma new_id_not_none: "none_is_no_id c \<Longrightarrow> fst (new_id c m) \<noteq> MISDN_ID_NONE c"
proof
  assume a: "none_is_no_id c" and b: "fst (new_id c m) = MISDN_ID_NONE c"
  have "fst (new_id c m) = push_bit 16 (nextid m) OR id_tag c"
    by (simp add: new_id_def Let_def id_tag_def or.assoc)
  then have "fst (new_id c m) AND id_tag c = id_tag c"
    by (simp add: bit_eq_iff bit_simps) blast
  with a b show False by (simp add: none_is_no_id_def)
qed

lemma new_id_fields [simp]:
  "mgr_layer2 (snd (new_id c m)) = mgr_layer2 m"
  "MGR_PH_ACTIVE (snd (new_id c m)) = MGR_PH_ACTIVE m"
  "MGR_PH_NOTREADY (snd (new_id c m)) = MGR_PH_NOTREADY m"
  "MGR_OPT_NETWORK (snd (new_id c m)) = MGR_OPT_NETWORK m"
  "MGR_OPT_USER (snd (new_id c m)) = MGR_OPT_USER m"
  "sendq (snd (new_id c m)) = sendq m"
  "lastid (snd (new_id c m)) = lastid m"
  "ch_accepted (snd (new_id c m)) = ch_accepted m"
  "ch_inflight (snd (new_id c m)) = ch_inflight m"
  "kfreed (snd (new_id c m)) = kfreed m"
  "act_req (snd (new_id c m)) = act_req m"
  "l2_log (snd (new_id c m)) = l2_log m"
  "rnd_used (snd (new_id c m)) = rnd_used m"
  by (simp_all add: new_id_def Let_def)

lemma qinv_new_id [simp]: "qinv c (snd (new_id c m)) = qinv c m"
  by (simp add: qinv_def)

lemma do_send_fields [simp]:
  "mgr_layer2 (do_send c e m) = mgr_layer2 m"
  "MGR_PH_ACTIVE (do_send c e m) = MGR_PH_ACTIVE m"
  "MGR_OPT_NETWORK (do_send c e m) = MGR_OPT_NETWORK m"
  "MGR_OPT_USER (do_send c e m) = MGR_OPT_USER m"
  "l2_log (do_send c e m) = l2_log m"
  "rnd_used (do_send c e m) = rnd_used m"
  "act_req (do_send c e m) = act_req m"
  "nextid (do_send c e m) = nextid m"
  by (simp_all add: do_send_def hand_off_def dev_kfree_skb_def Let_def split: list.splits)

lemma do_send_qinv: "qinv c m \<Longrightarrow> qinv c (do_send c e m)"
  by (auto simp: qinv_def do_send_def hand_off_def dev_kfree_skb_def Let_def split: list.splits)

lemma do_send_frames [simp]: "frames (do_send c e m) = frames m"
  by (simp add: frames_def do_send_def hand_off_def dev_kfree_skb_def Let_def split: list.splits)

lemma do_ack_fields [simp]:
  "mgr_layer2 (do_ack c e m a) = mgr_layer2 m"
  "MGR_PH_ACTIVE (do_ack c e m a) = MGR_PH_ACTIVE m"
  "MGR_OPT_NETWORK (do_ack c e m a) = MGR_OPT_NETWORK m"
  "MGR_OPT_USER (do_ack c e m a) = MGR_OPT_USER m"
  "l2_log (do_ack c e m a) = l2_log m"
  "rnd_used (do_ack c e m a) = rnd_used m"
  "act_req (do_ack c e m a) = act_req m"
  "nextid (do_ack c e m a) = nextid m"
  by (simp_all add: do_ack_def hand_off_def dev_kfree_skb_def Let_def split: list.splits)

lemma do_ack_frames [simp]: "frames (do_ack c e m a) = frames m"
  by (simp add: frames_def do_ack_def hand_off_def dev_kfree_skb_def Let_def split: list.splits)

lemma confirm_do_ack_qinv: "qinv c m \<Longrightarrow> qinv c (do_ack c e (confirm m a) a)"
  by (auto simp: qinv_def do_ack_def confirm_def hand_off_def dev_kfree_skb_def Let_def
      split: list.splits if_splits)

lemma mgr_send_down_fields [simp]:
  "mgr_layer2 (mgr_send_down c e m s) = mgr_layer2 m"
  "MGR_PH_ACTIVE (mgr_send_down c e m s) = MGR_PH_ACTIVE m"
  "MGR_OPT_NETWORK (mgr_send_down c e m s) = MGR_OPT_NETWORK m"
  "MGR_OPT_USER (mgr_send_down c e m s) = MGR_OPT_USER m"
  "l2_log (mgr_send_down c e m s) = l2_log m"
  "rnd_used (mgr_send_down c e m s) = rnd_used m"
  "nextid (mgr_send_down c e m s) = nextid m"
  by (simp_all add: mgr_send_down_def queue_activate_req_def Let_def)

lemma mgr_send_down_qinv:
  "qinv c m \<Longrightarrow> skb_id s \<noteq> MISDN_ID_NONE c \<Longrightarrow> qinv c (mgr_send_down c e m s)"
proof -
  assume a: "qinv c m" and b: "skb_id s \<noteq> MISDN_ID_NONE c"
  then have q: "qinv c (m\<lparr>sendq := sendq m @ [s]\<rparr>)" by (simp add: qinv_def)
  show ?thesis
  proof (cases "MGR_PH_ACTIVE m")
    case True
    then show ?thesis using do_send_qinv [OF q] by (simp add: mgr_send_down_def Let_def)
  next
    case False
    then show ?thesis using q by (simp add: mgr_send_down_def Let_def queue_activate_req_def qinv_def)
  qed
qed

lemma mgr_send_down_frames [simp]: "frames (mgr_send_down c e m s) = frames m + {#s#}"
proof -
  have "frames (m\<lparr>sendq := sendq m @ [s]\<rparr>) = frames m + {#s#}" by (simp add: frames_def)
  then show ?thesis
    by (simp add: mgr_send_down_def Let_def queue_activate_req_def) (simp add: frames_def)
qed

lemma put_tei_msg_eq:
  "put_tei_msg c e m i m_id ri tei = mgr_send_down c e (snd (new_id c m)) (tei_skb c m i m_id ri tei)"
  by (simp add: put_tei_msg_def tei_skb_def alloc_mISDN_skb_def Let_def split_beta)

lemma put_tei_msg_fields [simp]:
  "mgr_layer2 (put_tei_msg c e m i m_id ri tei) = mgr_layer2 m"
  "MGR_PH_ACTIVE (put_tei_msg c e m i m_id ri tei) = MGR_PH_ACTIVE m"
  "MGR_OPT_NETWORK (put_tei_msg c e m i m_id ri tei) = MGR_OPT_NETWORK m"
  "MGR_OPT_USER (put_tei_msg c e m i m_id ri tei) = MGR_OPT_USER m"
  "l2_log (put_tei_msg c e m i m_id ri tei) = l2_log m"
  "rnd_used (put_tei_msg c e m i m_id ri tei) = rnd_used m"
  by (simp_all add: put_tei_msg_eq)

lemma put_tei_msg_qinv: "none_is_no_id c \<Longrightarrow> qinv c m \<Longrightarrow> qinv c (put_tei_msg c e m i m_id ri tei)"
  by (simp add: put_tei_msg_eq mgr_send_down_qinv tei_skb_def new_id_not_none)

lemma put_tei_msg_frames [simp]:
  "frames (put_tei_msg c e m i m_id ri tei) = frames m + {#tei_skb c m i m_id ri tei#}"
  by (simp add: put_tei_msg_eq) (simp add: frames_def)

lemma dl_unit_data_qinv:
  "none_is_no_id c \<Longrightarrow> qinv c m \<Longrightarrow> dl_unit_data c e m s = Inr m' \<Longrightarrow> qinv c m'"
proof -
  assume n: "none_is_no_id c" and q: "qinv c m" and d: "dl_unit_data c e m s = Inr m'"
  define m1 where "m1 = (if \<not> MGR_PH_ACTIVE m then queue_activate_req m else m)"
  have q1: "qinv c m1" using q by (auto simp: m1_def queue_activate_req_def qinv_def)
  define s' where "s' = s\<lparr>skb_prim := PH_DATA_REQ, skb_id := fst (new_id c m1),
      skb_data := [0x02, 0xff, of_nat (UI c)] @ skb_data s\<rparr>"
  have "qinv c ((snd (new_id c m1))\<lparr>sendq := sendq (snd (new_id c m1)) @ [s']\<rparr>)"
    using q1 new_id_not_none [OF n, of m1] by (simp add: qinv_def s'_def)
  then have "qinv c (do_send c e ((snd (new_id c m1))\<lparr>sendq := sendq (snd (new_id c m1)) @ [s']\<rparr>))"
    by (rule do_send_qinv)
  moreover have "m' = do_send c e ((snd (new_id c m1))\<lparr>sendq := sendq (snd (new_id c m1)) @ [s']\<rparr>)"
    using d by (auto simp: dl_unit_data_def Let_def split_beta m1_def s'_def split: if_splits)
  ultimately show ?thesis by simp
qed

lemma qinv_upd [simp]:
  "qinv c (m\<lparr>mgr_layer2 := x\<rparr>) = qinv c m"
  "qinv c (m\<lparr>rnd_used := y\<rparr>) = qinv c m"
  "qinv c (m\<lparr>l2_log := z\<rparr>) = qinv c m"
  "qinv c (m\<lparr>MGR_OPT_NETWORK := n\<rparr>) = qinv c m"
  "qinv c (m\<lparr>MGR_OPT_USER := u\<rparr>) = qinv c m"
  "qinv c (m\<lparr>act_req := a\<rparr>) = qinv c m"
  by (simp_all add: qinv_def)

lemma frames_upd [simp]:
  "frames (m\<lparr>mgr_layer2 := x\<rparr>) = frames m"
  "frames (m\<lparr>rnd_used := y\<rparr>) = frames m"
  "frames (m\<lparr>l2_log := z\<rparr>) = frames m"
  by (simp_all add: frames_def)

lemmas sess_defs = upd_tm_def upd_l2_def tm_of_def tei_of_def mISDN_FsmChangeState_def
  mISDN_FsmAddTimer_def mISDN_FsmDelTimer_def tei_l2_def random_ri_def Let_def split_beta

lemmas handler_defs = tei_id_request_def tei_assign_req_def tei_id_assign_def tei_id_denied_def
  tei_id_chk_req_def tei_id_remove_def tei_id_verify_def tei_id_req_tout_def tei_id_ver_tout_def

lemma handlers_qinv:
  assumes "none_is_no_id c" and "qinv c m"
  shows "qinv c (tei_id_request c e m i)"
    and "qinv c (tei_assign_req c e m i dp)"
    and "qinv c (tei_id_assign m i dp)"
    and "qinv c (tei_id_denied m i dp)"
    and "qinv c (tei_id_chk_req c e m i dp)"
    and "qinv c (tei_id_remove m i dp)"
    and "qinv c (tei_id_verify c e m i)"
    and "qinv c (tei_id_req_tout c e m i)"
    and "qinv c (tei_id_ver_tout c e m i)"
  using assms
  by (auto simp: handler_defs sess_defs intro!: put_tei_msg_qinv split: option.splits)

lemma handlers_length [simp]:
  "length (mgr_layer2 (tei_id_request c e m i)) = length (mgr_layer2 m)"
  "length (mgr_layer2 (tei_assign_req c e m i dp)) = length (mgr_layer2 m)"
  "length (mgr_layer2 (tei_id_assign m i dp)) = length (mgr_layer2 m)"
  "length (mgr_layer2 (tei_id_denied m i dp)) = length (mgr_layer2 m)"
  "length (mgr_layer2 (tei_id_chk_req c e m i dp)) = length (mgr_layer2 m)"
  "length (mgr_layer2 (tei_id_remove m i dp)) = length (mgr_layer2 m)"
  "length (mgr_layer2 (tei_id_verify c e m i)) = length (mgr_layer2 m)"
  "length (mgr_layer2 (tei_id_req_tout c e m i)) = length (mgr_layer2 m)"
  "length (mgr_layer2 (tei_id_ver_tout c e m i)) = length (mgr_layer2 m)"
  by (auto simp: handler_defs sess_defs split: option.splits)

lemma timer_inv_nth:
  "timer_inv m = (\<forall>k < length (mgr_layer2 m). session_ok (l2_tm (mgr_layer2 m ! k)))"
  by (simp add: timer_inv_def list_all_length)

lemma upd_twice [simp]:
  "(xs[i := a])[i := g ((xs[i := a]) ! i)] = xs[i := g a]"
  by (cases "i < length xs") (simp_all add: list_update_beyond)

lemma nth_upd: "k < length xs \<Longrightarrow> xs[i := x] ! k = (if i = k then x else xs ! k)"
  by auto

text \<open>Handlers that end with a consistent session whatever the timer was before.\<close>

lemma handlers_timer_inv:
  assumes "timer_inv m"
  shows "timer_inv (tei_id_request c e m i)"
    and "timer_inv (tei_id_assign m i dp)"
    and "timer_inv (tei_id_denied m i dp)"
    and "timer_inv (tei_id_chk_req c e m i dp)"
    and "timer_inv (tei_id_remove m i dp)"
    and "timer_inv (tei_id_verify c e m i)"
  using assms
  by (auto simp: timer_inv_nth handler_defs sess_defs nth_upd session_ok_def split: option.splits)

lemma assign_req_timer_inv:
  "timer_inv m \<Longrightarrow> tm_state (tm_of m i) = ST_TEI_NOP \<Longrightarrow> timer_inv (tei_assign_req c e m i dp)"
  by (auto simp: timer_inv_nth handler_defs sess_defs nth_upd session_ok_def split: option.splits)

lemma jump_simps:
  "jump TeiFnList ST_TEI_NOP ev =
     (case ev of EV_IDREQ \<Rightarrow> Some FN_tei_id_request | EV_ASSIGN \<Rightarrow> Some FN_tei_id_test_dup
      | EV_ASSIGN_REQ \<Rightarrow> Some FN_tei_assign_req | EV_VERIFY \<Rightarrow> Some FN_tei_id_verify
      | EV_REMOVE \<Rightarrow> Some FN_tei_id_remove | EV_CHKREQ \<Rightarrow> Some FN_tei_id_chk_req
      | _ \<Rightarrow> None)"
  "jump TeiFnList ST_TEI_IDREQ ev =
     (case ev of EV_TIMER \<Rightarrow> Some FN_tei_id_req_tout | EV_ASSIGN \<Rightarrow> Some FN_tei_id_assign
      | EV_DENIED \<Rightarrow> Some FN_tei_id_denied | _ \<Rightarrow> None)"
  "jump TeiFnList ST_TEI_IDVERIFY ev =
     (case ev of EV_TIMER \<Rightarrow> Some FN_tei_id_ver_tout | EV_REMOVE \<Rightarrow> Some FN_tei_id_remove
      | EV_CHKREQ \<Rightarrow> Some FN_tei_id_chk_req | _ \<Rightarrow> None)"
  by (cases ev; simp add: TeiFnList_def)+

lemma raise_EV_VERIFY_eq:
  "raise_EV_VERIFY c e m j =
     (if tm_state (tm_of m j) = ST_TEI_NOP then tei_id_verify c e m j else m)"
  by (cases "tm_state (tm_of m j)") (simp_all add: raise_EV_VERIFY_def jump_simps)

lemma FsmEvent_EV_VERIFY: "mISDN_FsmEvent c e m j EV_VERIFY dp = raise_EV_VERIFY c e m j"
  by (cases "tm_state (tm_of m j)") (simp_all add: raise_EV_VERIFY_eq mISDN_FsmEvent_def jump_simps)

lemma test_dup_qinv: "none_is_no_id c \<Longrightarrow> qinv c m \<Longrightarrow> qinv c (tei_id_test_dup c e m i dp)"
  by (simp add: tei_id_test_dup_def raise_EV_VERIFY_eq Let_def handlers_qinv split: option.splits)

lemma test_dup_timer_inv: "timer_inv m \<Longrightarrow> timer_inv (tei_id_test_dup c e m i dp)"
  by (simp add: tei_id_test_dup_def raise_EV_VERIFY_eq Let_def handlers_timer_inv split: option.splits)

lemma tout_qinv':
  "none_is_no_id c \<Longrightarrow> qinv c m \<Longrightarrow> qinv c (run_fn c e f m i dp)"
  by (cases f) (simp_all add: handlers_qinv test_dup_qinv)

lemma FsmEvent_qinv: "none_is_no_id c \<Longrightarrow> qinv c m \<Longrightarrow> qinv c (mISDN_FsmEvent c e m i ev dp)"
  by (simp add: mISDN_FsmEvent_def tout_qinv' split: option.splits)

lemma FsmEvent_timer_inv:
  assumes "timer_inv m" and "ev \<noteq> EV_TIMER"
  shows "timer_inv (mISDN_FsmEvent c e m i ev dp)"
  using assms
  by (cases "tm_state (tm_of m i)"; cases ev)
     (simp_all add: mISDN_FsmEvent_def jump_simps handlers_timer_inv test_dup_timer_inv
        assign_req_timer_inv)

lemma FsmExpireTimer_qinv: "none_is_no_id c \<Longrightarrow> qinv c m \<Longrightarrow> qinv c (FsmExpireTimer c e m i)"
  by (simp add: FsmExpireTimer_def FsmEvent_qinv upd_tm_def upd_l2_def)

lemma tout_timer_inv:
  assumes "timer_inv m" and "i < length (mgr_layer2 m)"
    and "tm_state (tm_of m i) = ST_TEI_IDREQ \<or> tm_state (tm_of m i) = ST_TEI_IDVERIFY"
  shows "timer_inv (tei_id_req_tout c e (upd_tm m i (\<lambda>t. t\<lparr>tm_timer := False\<rparr>)) i)"
    and "timer_inv (tei_id_ver_tout c e (upd_tm m i (\<lambda>t. t\<lparr>tm_timer := False\<rparr>)) i)"
  using assms
  by (auto simp: timer_inv_nth handler_defs sess_defs nth_upd session_ok_def)

lemma FsmExpireTimer_timer_inv:
  assumes "timer_inv m" and "i < length (mgr_layer2 m)"
  shows "timer_inv (FsmExpireTimer c e m i)"
proof (cases "tm_timer (tm_of m i)")
  case False
  then show ?thesis using assms by (simp add: FsmExpireTimer_def)
next
  case True
  have "session_ok (tm_of m i)" using assms by (simp add: timer_inv_nth tm_of_def)
  with True have st: "tm_state (tm_of m i) = ST_TEI_IDREQ \<or> tm_state (tm_of m i) = ST_TEI_IDVERIFY"
    by (simp add: session_ok_def)
  have st': "tm_state (tm_of (upd_tm m i (\<lambda>t. t\<lparr>tm_timer := False\<rparr>)) i) = tm_state (tm_of m i)"
    using assms(2) by (simp add: sess_defs)
  from st show ?thesis
  proof
    assume a: "tm_state (tm_of m i) = ST_TEI_IDREQ"
    then show ?thesis using True st' tout_timer_inv(1) [OF assms st]
      by (simp add: FsmExpireTimer_def mISDN_FsmEvent_def jump_simps)
  next
    assume a: "tm_state (tm_of m i) = ST_TEI_IDVERIFY"
    then show ?thesis using True st' tout_timer_inv(2) [OF assms st]
      by (simp add: FsmExpireTimer_def mISDN_FsmEvent_def jump_simps)
  qed
qed

lemma tei_ph_data_ind_qinv:
  "none_is_no_id c \<Longrightarrow> qinv c m \<Longrightarrow> qinv c (tei_ph_data_ind c e m i mt dp)"
  by (simp add: tei_ph_data_ind_def FsmEvent_qinv)

lemma tei_ph_data_ind_timer_inv:
  "timer_inv m \<Longrightarrow> timer_inv (tei_ph_data_ind c e m i mt dp)"
  by (simp add: tei_ph_data_ind_def FsmEvent_timer_inv)

lemma fold_inv:
  "P m \<Longrightarrow> (\<And>m i. P m \<Longrightarrow> P (f i m)) \<Longrightarrow> P (fold f xs m)"
  by (induction xs arbitrary: m) simp_all

lemma fanout_qinv:
  "none_is_no_id c \<Longrightarrow> qinv c m \<Longrightarrow>
   qinv c (fold (\<lambda>i m'. tei_ph_data_ind c e m' i mt dp) xs m)"
  by (rule fold_inv [where P = "qinv c"]) (simp_all add: tei_ph_data_ind_qinv)

lemma fanout_timer_inv:
  "timer_inv m \<Longrightarrow> timer_inv (fold (\<lambda>i m'. tei_ph_data_ind c e m' i mt dp) xs m)"
  by (rule fold_inv [where P = timer_inv]) (simp_all add: tei_ph_data_ind_timer_inv)

lemma ph_data_ind_qinv:
  "none_is_no_id c \<Longrightarrow> qinv c m \<Longrightarrow> qinv c (snd (ph_data_ind c e m d))"
  by (simp add: ph_data_ind_def Let_def new_tei_req_def fanout_qinv split: option.splits)

lemma ph_data_ind_timer_inv:
  "timer_inv m \<Longrightarrow> timer_inv (snd (ph_data_ind c e m d))"
  by (simp add: ph_data_ind_def Let_def new_tei_req_def fanout_timer_inv split: option.splits)

lemma timer_inv_upd [simp]:
  "timer_inv (m\<lparr>MGR_PH_ACTIVE := a\<rparr>) = timer_inv m"
  "timer_inv (m\<lparr>MGR_OPT_NETWORK := n\<rparr>) = timer_inv m"
  "timer_inv (m\<lparr>MGR_OPT_USER := u\<rparr>) = timer_inv m"
  "timer_inv (do_send c e m) = timer_inv m"
  "timer_inv (do_ack c e m x) = timer_inv m"
  "timer_inv (confirm m x) = timer_inv m"
  by (simp_all add: timer_inv_def confirm_def)

lemma dl_unit_data_layer2:
  "dl_unit_data c e m s = Inr m' \<Longrightarrow> mgr_layer2 m' = mgr_layer2 m"
  by (auto simp: dl_unit_data_def Let_def split_beta queue_activate_req_def split: if_splits)

lemma qinv_active [simp]: "qinv c (m\<lparr>MGR_PH_ACTIVE := a\<rparr>) = qinv c m"
  by (simp add: qinv_def)

lemma mgr_send_qinv:
  assumes n: "none_is_no_id c" and q: "qinv c m"
  shows "qinv c (snd (mgr_send c e m s))"
proof (cases "skb_prim s")
  case PH_DATA_IND
  then show ?thesis using n q by (simp add: mgr_send_def ph_data_ind_qinv)
next
  case PH_DATA_CNF
  then show ?thesis using q by (simp add: mgr_send_def confirm_do_ack_qinv)
next
  case PH_ACTIVATE_IND
  then show ?thesis using q by (simp add: mgr_send_def do_send_qinv)
next
  case PH_DEACTIVATE_IND
  then show ?thesis using q by (simp add: mgr_send_def)
next
  case DL_UNITDATA_REQ
  then show ?thesis using n q
    by (cases "dl_unit_data c e m s") (simp_all add: mgr_send_def dl_unit_data_qinv)
qed (use q in \<open>simp_all add: mgr_send_def\<close>)

lemma mgr_send_timer_inv:
  assumes t: "timer_inv m"
  shows "timer_inv (snd (mgr_send c e m s))"
proof (cases "skb_prim s")
  case PH_DATA_IND
  then show ?thesis using t by (simp add: mgr_send_def ph_data_ind_timer_inv)
next
  case DL_UNITDATA_REQ
  show ?thesis
  proof (cases "dl_unit_data c e m s")
    case (Inl a)
    then show ?thesis using t DL_UNITDATA_REQ by (simp add: mgr_send_def)
  next
    case (Inr m')
    then have "mgr_layer2 m' = mgr_layer2 m" by (rule dl_unit_data_layer2)
    then show ?thesis using t DL_UNITDATA_REQ Inr by (simp add: mgr_send_def timer_inv_def)
  qed
qed (use t in \<open>simp_all add: mgr_send_def\<close>)

lemma l2_tei_qinv: "none_is_no_id c \<Longrightarrow> qinv c m \<Longrightarrow> qinv c (l2_tei c e m i cmd)"
  by (simp add: l2_tei_def FsmEvent_qinv sess_defs)

lemma tei_l2_timer_inv: "timer_inv m \<Longrightarrow> timer_inv (tei_l2 m i cmd a)"
  by (auto simp: timer_inv_nth sess_defs nth_upd)

lemma l2_tei_timer_inv: "timer_inv m \<Longrightarrow> timer_inv (l2_tei c e m i cmd)"
  by (simp add: l2_tei_def FsmEvent_timer_inv tei_l2_timer_inv)

lemma release_tei_qinv: "qinv c m \<Longrightarrow> qinv c (release_tei m i)"
  by (simp add: release_tei_def sess_defs)

lemma release_tei_timer_inv:
  assumes a: "timer_inv m"
  shows "timer_inv (release_tei m i)"
proof -
  have d: "timer_inv (mISDN_FsmDelTimer m i) \<or> i < length (mgr_layer2 m)"
    using a by (cases "i < length (mgr_layer2 m)") (simp_all add: sess_defs timer_inv_def list_update_beyond)
  have l: "mgr_layer2 (release_tei m i) = take i (mgr_layer2 m) @ drop (Suc i) (mgr_layer2 m)"
    by (simp add: release_tei_def sess_defs)
  have "set (take i (mgr_layer2 m) @ drop (Suc i) (mgr_layer2 m)) \<subseteq> set (mgr_layer2 m)"
    by (auto dest: in_set_takeD in_set_dropD)
  then show ?thesis using a unfolding timer_inv_def l list_all_iff by blast
qed

lemma create_teimgr_qinv: "qinv c m \<Longrightarrow> qinv c (snd (create_teimgr e m p s t n))"
  by (simp add: create_teimgr_def Let_def split: option.splits)

lemma create_teimgr_timer_inv: "timer_inv m \<Longrightarrow> timer_inv (snd (create_teimgr e m p s t n))"
  by (simp add: create_teimgr_def Let_def timer_inv_def session_ok_def split: option.splits)

lemma frame_checks_bytes:
  assumes s: "TEI_SAPI c < 64" and u: "unat ((of_nat (UI c) :: u_char) AND 0xef) = UI c"
  shows "frame_checks c (tei_msg_bytes c net m_id ri tei)"
proof -
  let ?d = "tei_msg_bytes c net m_id ri tei"
  have l: "length ?d = 8" by (simp add: tei_msg_bytes_def Let_def)
  have d0: "?d ! 0 = (if net then push_bit 2 (of_nat (TEI_SAPI c)) OR 2 else push_bit 2 (of_nat (TEI_SAPI c)))"
    by (simp add: tei_msg_bytes_def Let_def)
  have d1: "?d ! 1 = push_bit 1 (of_nat GROUP_TEI) OR 1" by (simp add: tei_msg_bytes_def Let_def)
  have d2: "?d ! 2 = of_nat (UI c)" by (simp add: tei_msg_bytes_def Let_def)
  have d3: "?d ! 3 = TEI_ENTITY_ID" by (simp add: tei_msg_bytes_def Let_def)
  have c0: "unat (drop_bit 2 (?d ! 0)) = TEI_SAPI c"
    unfolding d0 using sapi_a [OF s] sapi_b [OF s] by (cases net) simp_all
  have c1: "?d ! 0 AND 1 = 0" unfolding d0 using ea0 ea0b by (cases net) simp_all
  have c2: "?d ! 1 AND 1 \<noteq> 0" unfolding d1 by (rule grp1)
  have c3: "unat (drop_bit 1 (?d ! 1)) = GROUP_TEI" unfolding d1 by (rule grp)
  have c4: "unat (?d ! 2 AND 0xef) = UI c" unfolding d2 by (rule u)
  show ?thesis unfolding frame_checks_def using l c0 c1 c2 c3 c4 d3 by simp
qed

lemma mt_valid: "valid_mt mt \<Longrightarrow> mt_for_network mt \<noteq> None"
  by (auto simp: valid_mt_def mt_for_network_def)

lemma reachable_qinv:
  assumes n: "none_is_no_id c" and r: "reachable c m"
  shows "qinv c m"
  using r
proof (induction rule: reachable.induct)
  case r_init
  then show ?case by (simp add: qinv_def mISDN_create_manager_def)
next
  case (r_owner m i t)
  then show ?case by (simp add: upd_l2_def)
next
  case (r_timer m i e)
  then show ?case by (simp add: n FsmExpireTimer_qinv)
qed (simp_all add: n create_teimgr_qinv release_tei_qinv mgr_send_qinv l2_tei_qinv FsmEvent_qinv
      put_tei_msg_qinv do_send_qinv)

lemma reachable_timer_inv: "reachable c m \<Longrightarrow> timer_inv m"
proof (induction rule: reachable.induct)
  case r_init
  then show ?case by (simp add: timer_inv_def mISDN_create_manager_def)
next
  case (r_owner m i t)
  then show ?case by (auto simp: timer_inv_nth upd_l2_def nth_upd)
next
  case (r_put m i e m_id ri tei)
  then show ?case by (simp add: timer_inv_def)
qed (simp_all add: create_teimgr_timer_inv release_tei_timer_inv mgr_send_timer_inv
      l2_tei_timer_inv FsmEvent_timer_inv FsmExpireTimer_timer_inv)

lemma ex_mgr1_eq: "ex_mgr1 =
  \<lparr>mgr_layer2 =
    [\<lparr>l2_sapi = 0, l2_tei = 127, FLG_FIXED_TEI = False, FLG_LAPD_NET = False,
      l2_tm = \<lparr>tm_state = ST_TEI_NOP, tm_timer = False, tm_ri = 0, tm_nval = 0, tm_tval = 1000\<rparr>\<rparr>],
    MGR_OPT_NETWORK = False, MGR_OPT_USER = False, MGR_PH_ACTIVE = False,
    MGR_PH_NOTREADY = False, sendq = [], nextid = 1, lastid = 65534,
    ch_accepted = [], ch_inflight = [], kfreed = [], act_req = 0,
    l2_log = [], rnd_used = 0\<rparr>"
  by (simp add: ex_mgr1_def create_teimgr_def mISDN_create_manager_def env0_def hdr0_def
      create_l2_0_def GROUP_TEI_def Let_def)

lemma ex_mgr2_eq: "ex_mgr2 =
  \<lparr>mgr_layer2 =
    [\<lparr>l2_sapi = 0, l2_tei = 127, FLG_FIXED_TEI = False, FLG_LAPD_NET = False,
      l2_tm = \<lparr>tm_state = ST_TEI_IDREQ, tm_timer = True, tm_ri = 4660, tm_nval = 3, tm_tval = 1000\<rparr>\<rparr>],
    MGR_OPT_NETWORK = False, MGR_OPT_USER = False, MGR_PH_ACTIVE = False,
    MGR_PH_NOTREADY = False,
    sendq = [\<lparr>skb_prim = PH_DATA_REQ, skb_id = 98111, skb_data = [252, 255, 3, 15, 18, 52, 1, 255]\<rparr>],
    nextid = 2, lastid = 65534, ch_accepted = [], ch_inflight = [],
    kfreed = [], act_req = 1, l2_log = [], rnd_used = 1\<rparr>"
  by (simp add: ex_mgr2_def ex_mgr1_eq l2_tei_def mISDN_FsmEvent_def jump_simps
      tei_id_request_def sess_defs put_tei_msg_def new_id_def alloc_mISDN_skb_def
      mgr_send_down_def queue_activate_req_def tei_msg_bytes_def
      env0_def hdr0_def GROUP_TEI_def ID_REQUEST_def TEI_ENTITY_ID_def)

lemma ex_mgr3_eq: "ex_mgr3 =
  \<lparr>mgr_layer2 =
    [\<lparr>l2_sapi = 0, l2_tei = 127, FLG_FIXED_TEI = False, FLG_LAPD_NET = False,
      l2_tm = \<lparr>tm_state = ST_TEI_IDREQ, tm_timer = True, tm_ri = 4660, tm_nval = 3, tm_tval = 1000\<rparr>\<rparr>],
    MGR_OPT_NETWORK = False, MGR_OPT_USER = False, MGR_PH_ACTIVE = True,
    MGR_PH_NOTREADY = True, sendq = [], nextid = 2, lastid = 98111,
    ch_accepted = [\<lparr>skb_prim = PH_DATA_REQ, skb_id = 98111, skb_data = [252, 255, 3, 15, 18, 52, 1, 255]\<rparr>],
    ch_inflight = [\<lparr>skb_prim = PH_DATA_REQ, skb_id = 98111, skb_data = [252, 255, 3, 15, 18, 52, 1, 255]\<rparr>],
    kfreed = [], act_req = 1, l2_log = [], rnd_used = 1\<rparr>"
  by (simp add: ex_mgr3_def ex_mgr2_eq mgr_send_def do_send_def hand_off_def env0_def hdr0_def)

lemma none_is_no_id_hdr0: "none_is_no_id hdr0"
  by (simp add: none_is_no_id_def id_tag_def hdr0_def GROUP_TEI_def)

lemma reachable_ex_mgr1: "reachable hdr0 ex_mgr1"
  unfolding ex_mgr1_def by (rule r_create [OF r_init])

lemma reachable_ex_mgr2: "reachable hdr0 ex_mgr2"
  unfolding ex_mgr2_def by (rule r_l2_tei [OF reachable_ex_mgr1]) (simp add: ex_mgr1_eq)

lemma reachable_ex_mgr3: "reachable hdr0 ex_mgr3"
  unfolding ex_mgr3_def by (rule r_mgr_send [OF reachable_ex_mgr2])

lemma mt_classes:
  "network_directed mt \<Longrightarrow> mt_for_network mt = Some False"
  "terminal_directed mt \<Longrightarrow> mt_for_network mt = Some True"
  by (auto simp: network_directed_def terminal_directed_def mt_for_network_def
      ID_REQUEST_def ID_ASSIGNED_def ID_DENIED_def ID_CHK_REQ_def ID_CHK_RES_def ID_REMOVE_def ID_VERIFY_def)

lemma nextid_upd [simp]:
  "nextid (upd_tm m i f) = nextid m"
  "nextid (upd_l2 m i g) = nextid m"
  "nextid (tei_l2 m i cmd a) = nextid m"
  by (simp_all add: sess_defs)

lemma ver_tout_resend:
  assumes i: "i < length (mgr_layer2 m)" and s: "tm_state (tm_of m i) = ST_TEI_IDVERIFY"
    and n: "tm_nval (tm_of m i) \<noteq> 1" and t: "tm_timer (tm_of m i)"
  shows "frames (FsmExpireTimer c e m i) =
           frames m + {#tei_skb c m i ID_VERIFY 0 (word_of_int (tei_of m i))#}"
    and "tm_state (tm_of (FsmExpireTimer c e m i) i) = ST_TEI_IDVERIFY"
    and "tm_timer (tm_of (FsmExpireTimer c e m i) i)"
    and "tm_nval (tm_of (FsmExpireTimer c e m i) i) = tm_nval (tm_of m i) - 1"
    and "l2_log (FsmExpireTimer c e m i) = l2_log m"
    and "tei_of (FsmExpireTimer c e m i) i = tei_of m i"
    and "length (mgr_layer2 (FsmExpireTimer c e m i)) = length (mgr_layer2 m)"
  using assms
  by (simp_all add: FsmExpireTimer_def mISDN_FsmEvent_def jump_simps tei_id_ver_tout_def sess_defs
      tei_skb_def new_id_def)

lemma uint_ucast16 [simp]: "uint (ucast (w :: 16 word) :: u_int) = uint w"
  by (simp add: uint_up_ucast is_up)

lemma ver_tout_fail:
  assumes i: "i < length (mgr_layer2 m)" and s: "tm_state (tm_of m i) = ST_TEI_IDVERIFY"
    and n: "tm_nval (tm_of m i) = 1" and t: "tm_timer (tm_of m i)"
  shows "frames (FsmExpireTimer c e m i) = frames m"
    and "tm_state (tm_of (FsmExpireTimer c e m i) i) = ST_TEI_NOP"
    and "\<not> tm_timer (tm_of (FsmExpireTimer c e m i) i)"
    and "l2_log (FsmExpireTimer c e m i) = l2_log m @ [(i, MDL_REMOVE_REQ, 0)]"
    and "tei_of (FsmExpireTimer c e m i) i = tei_of m i"
  using assms
  by (simp_all add: FsmExpireTimer_def mISDN_FsmEvent_def jump_simps tei_id_ver_tout_def sess_defs)

lemma req_tout_resend:
  assumes i: "i < length (mgr_layer2 m)" and s: "tm_state (tm_of m i) = ST_TEI_IDREQ"
    and n: "tm_nval (tm_of m i) \<noteq> 1" and t: "tm_timer (tm_of m i)"
  shows "frames (FsmExpireTimer c e m i) =
           frames m + {#tei_skb c m i ID_REQUEST (ucast (rand e (rnd_used m))) (of_nat GROUP_TEI)#}"
    and "tm_state (tm_of (FsmExpireTimer c e m i) i) = ST_TEI_IDREQ"
    and "tm_timer (tm_of (FsmExpireTimer c e m i) i)"
    and "tm_nval (tm_of (FsmExpireTimer c e m i) i) = tm_nval (tm_of m i) - 1"
    and "l2_log (FsmExpireTimer c e m i) = l2_log m"
    and "tei_of (FsmExpireTimer c e m i) i = tei_of m i"
    and "length (mgr_layer2 (FsmExpireTimer c e m i)) = length (mgr_layer2 m)"
  using assms
  by (simp_all add: FsmExpireTimer_def mISDN_FsmEvent_def jump_simps tei_id_req_tout_def sess_defs
      tei_skb_def new_id_def)

lemma req_tout_fail:
  assumes i: "i < length (mgr_layer2 m)" and s: "tm_state (tm_of m i) = ST_TEI_IDREQ"
    and n: "tm_nval (tm_of m i) = 1" and t: "tm_timer (tm_of m i)"
  shows "frames (FsmExpireTimer c e m i) = frames m"
    and "tm_state (tm_of (FsmExpireTimer c e m i) i) = ST_TEI_NOP"
    and "\<not> tm_timer (tm_of (FsmExpireTimer c e m i) i)"
    and "l2_log (FsmExpireTimer c e m i) = l2_log m @ [(i, MDL_ERROR_RSP, 0)]"
    and "tei_of (FsmExpireTimer c e m i) i = tei_of m i"
  using assms
  by (simp_all add: FsmExpireTimer_def mISDN_FsmEvent_def jump_simps tei_id_req_tout_def sess_defs)

lemma id_request_effect:
  assumes i: "i < length (mgr_layer2 m)" and s: "tm_state (tm_of m i) = ST_TEI_NOP"
    and g: "tei_of m i = int GROUP_TEI"
  shows "frames (mISDN_FsmEvent c e m i EV_IDREQ dp) =
           frames m + {#tei_skb c m i ID_REQUEST (ucast (rand e (rnd_used m))) (of_nat GROUP_TEI)#}"
    and "tm_state (tm_of (mISDN_FsmEvent c e m i EV_IDREQ dp) i) = ST_TEI_IDREQ"
    and "tm_timer (tm_of (mISDN_FsmEvent c e m i EV_IDREQ dp) i)"
    and "tm_nval (tm_of (mISDN_FsmEvent c e m i EV_IDREQ dp) i) = 3"
    and "tm_ri (tm_of (mISDN_FsmEvent c e m i EV_IDREQ dp) i) = uint (rand e (rnd_used m))"
    and "rnd_used (mISDN_FsmEvent c e m i EV_IDREQ dp) = Suc (rnd_used m)"
    and "l2_log (mISDN_FsmEvent c e m i EV_IDREQ dp) = l2_log m"
    and "tei_of (mISDN_FsmEvent c e m i EV_IDREQ dp) i = tei_of m i"
    and "length (mgr_layer2 (mISDN_FsmEvent c e m i EV_IDREQ dp)) = length (mgr_layer2 m)"
  using assms
  by (simp_all add: mISDN_FsmEvent_def jump_simps tei_id_request_def sess_defs
      tei_skb_def new_id_def)

lemma id_request_assigned:
  "tei_of m i \<noteq> int GROUP_TEI \<Longrightarrow> mISDN_FsmEvent c e m i EV_IDREQ dp = m"
  by (cases "tm_state (tm_of m i)") (simp_all add: mISDN_FsmEvent_def jump_simps tei_id_request_def)

lemma verify_path_no_failure:
  "tm_state (tm_of m i) = ST_TEI_IDVERIFY \<Longrightarrow>
     assignment_failed (mISDN_FsmEvent c e m i ev dp) = assignment_failed m"
  by (cases ev)
     (simp_all add: assignment_failed_def mISDN_FsmEvent_def jump_simps tei_id_ver_tout_def
        tei_id_remove_def tei_id_chk_req_def sess_defs)

lemma verify_expiry_no_failure:
  "tm_state (tm_of m i) = ST_TEI_IDVERIFY \<Longrightarrow>
     assignment_failed (FsmExpireTimer c e m i) = assignment_failed m"
  by (cases "i < length (mgr_layer2 m)")
     (simp_all add: assignment_failed_def FsmExpireTimer_def mISDN_FsmEvent_def jump_simps
        tei_id_ver_tout_def sess_defs list_update_beyond)

lemma verify_start_no_failure:
  "assignment_failed (raise_EV_VERIFY c e m i) = assignment_failed m"
  by (simp add: assignment_failed_def raise_EV_VERIFY_eq tei_id_verify_def sess_defs)

lemma ex_ver1_eq: "ex_ver1 =
  \<lparr>mgr_layer2 =
    [\<lparr>l2_sapi = 0, l2_tei = 70, FLG_FIXED_TEI = False, FLG_LAPD_NET = False,
      l2_tm = \<lparr>tm_state = ST_TEI_NOP, tm_timer = False, tm_ri = 0, tm_nval = 0, tm_tval = 1000\<rparr>\<rparr>],
    MGR_OPT_NETWORK = False, MGR_OPT_USER = False, MGR_PH_ACTIVE = False,
    MGR_PH_NOTREADY = False, sendq = [], nextid = 1, lastid = 65534,
    ch_accepted = [], ch_inflight = [], kfreed = [], act_req = 0,
    l2_log = [], rnd_used = 0\<rparr>"
  by (simp add: ex_ver1_def create_teimgr_def mISDN_create_manager_def env0_def hdr0_def
      create_l2_0_def GROUP_TEI_def Let_def)

lemma ex_ver2_eq: "ex_ver2 =
  \<lparr>mgr_layer2 =
    [\<lparr>l2_sapi = 0, l2_tei = 70, FLG_FIXED_TEI = False, FLG_LAPD_NET = False,
      l2_tm = \<lparr>tm_state = ST_TEI_IDVERIFY, tm_timer = True, tm_ri = 0, tm_nval = 2, tm_tval = 1000\<rparr>\<rparr>],
    MGR_OPT_NETWORK = False, MGR_OPT_USER = False, MGR_PH_ACTIVE = False,
    MGR_PH_NOTREADY = False,
    sendq = [\<lparr>skb_prim = PH_DATA_REQ, skb_id = 98111, skb_data = [252, 255, 3, 15, 0, 0, 7, 141]\<rparr>],
    nextid = 2, lastid = 65534, ch_accepted = [], ch_inflight = [],
    kfreed = [], act_req = 1, l2_log = [], rnd_used = 0\<rparr>"
  by (simp add: ex_ver2_def ex_ver1_eq l2_tei_def mISDN_FsmEvent_def jump_simps
      tei_id_verify_def sess_defs put_tei_msg_def new_id_def alloc_mISDN_skb_def
      mgr_send_down_def queue_activate_req_def tei_msg_bytes_def
      env0_def hdr0_def GROUP_TEI_def ID_VERIFY_def TEI_ENTITY_ID_def)

lemma ex_mgr4_eq: "ex_mgr4 =
  \<lparr>mgr_layer2 =
    [\<lparr>l2_sapi = 0, l2_tei = 127, FLG_FIXED_TEI = False, FLG_LAPD_NET = False,
      l2_tm = \<lparr>tm_state = ST_TEI_IDREQ, tm_timer = True, tm_ri = 4660, tm_nval = 2, tm_tval = 1000\<rparr>\<rparr>],
    MGR_OPT_NETWORK = False, MGR_OPT_USER = False, MGR_PH_ACTIVE = True,
    MGR_PH_NOTREADY = True,
    sendq = [\<lparr>skb_prim = PH_DATA_REQ, skb_id = 163647, skb_data = [252, 255, 3, 15, 18, 52, 1, 255]\<rparr>],
    nextid = 3, lastid = 98111,
    ch_accepted = [\<lparr>skb_prim = PH_DATA_REQ, skb_id = 98111, skb_data = [252, 255, 3, 15, 18, 52, 1, 255]\<rparr>],
    ch_inflight = [\<lparr>skb_prim = PH_DATA_REQ, skb_id = 98111, skb_data = [252, 255, 3, 15, 18, 52, 1, 255]\<rparr>],
    kfreed = [], act_req = 1, l2_log = [], rnd_used = 2\<rparr>"
  by (simp add: ex_mgr4_def ex_mgr3_eq FsmExpireTimer_def mISDN_FsmEvent_def jump_simps
      tei_id_req_tout_def sess_defs put_tei_msg_def new_id_def alloc_mISDN_skb_def
      mgr_send_down_def do_send_def tei_msg_bytes_def
      env0_def hdr0_def GROUP_TEI_def ID_REQUEST_def TEI_ENTITY_ID_def)

section \<open>The properties\<close>

text \<open>
  C6: for each of the seven message types, every 16-bit reference value and every tei up to
  127, the eight octets that \<^verbatim>\<open>put_tei_msg\<close> builds pass every structural check of
  \<^verbatim>\<open>ph_data_ind\<close> (SAPI, EA bits, group tei, UI control, management entity id), and
  reading the message type, \<open>ri\<close> and \<open>tei\<close> back from them gives the encoded values.
  The two header constants that are not in the sources must fit their fields:
  \<^verbatim>\<open>TEI_SAPI\<close> in six bits and \<^verbatim>\<open>UI\<close> unchanged by the decoder's mask \<^verbatim>\<open>0xef\<close>.
\<close>

theorem decode_encode_identity:
  assumes "TEI_SAPI c < 64" and "unat ((of_nat (UI c) :: u_char) AND 0xef) = UI c"
    and "valid_mt mt" and "ri \<le> 0xffff" and "tei \<le> 127"
  shows "length (tei_msg_bytes c net mt ri tei) = 8 \<and>
         frame_checks c (tei_msg_bytes c net mt ri tei) \<and>
         decode c (tei_msg_bytes c net mt ri tei) = Some (mt, uint ri, uint tei)"
proof -
  let ?d = "tei_msg_bytes c net mt ri tei"
  have l: "length ?d = 8" by (simp add: tei_msg_bytes_def Let_def)
  have f: "frame_checks c ?d" using assms(1,2) by (rule frame_checks_bytes)
  have d6: "?d ! 6 = mt" by (simp add: tei_msg_bytes_def Let_def)
  have dp: "drop 4 ?d = [ucast (drop_bit 8 ri), ucast (ri AND 0xff), mt, push_bit 1 tei OR 1]"
    by (simp add: tei_msg_bytes_def Let_def)
  have r: "dp_ri (drop 4 ?d) = uint ri" unfolding dp dp_ri_def using ri_rt [OF assms(4)] by simp
  have t: "dp_tei (drop 4 ?d) = uint tei" unfolding dp dp_tei_def using tei_rt [OF assms(5)] by simp
  obtain b where b: "mt_for_network mt = Some b" using mt_valid [OF assms(3)] by auto
  show ?thesis using l f d6 r t b by (simp add: decode_def)
qed

theorem decode_encode_identity_witness:
  "TEI_SAPI hdr0 < 64 \<and> unat ((of_nat (UI hdr0) :: u_char) AND 0xef) = UI hdr0 \<and>
   valid_mt ID_ASSIGNED \<and> (0x1234 :: u_int) \<le> 0xffff \<and> (70 :: u_char) \<le> 127 \<and>
   tei_msg_bytes hdr0 False ID_ASSIGNED 0x1234 70 = [0xfc, 0xff, 0x03, 0x0f, 0x12, 0x34, 0x02, 0x8d] \<and>
   decode hdr0 [0xfc, 0xff, 0x03, 0x0f, 0x12, 0x34, 0x02, 0x8d] = Some (ID_ASSIGNED, 0x1234, 70)"
proof -
  have h: "TEI_SAPI hdr0 < 64" "unat ((of_nat (UI hdr0) :: u_char) AND 0xef) = UI hdr0"
    "valid_mt ID_ASSIGNED" "(0x1234 :: u_int) \<le> 0xffff" "(70 :: u_char) \<le> 127"
    by (simp_all add: hdr0_def valid_mt_def)
  have b: "tei_msg_bytes hdr0 False ID_ASSIGNED 0x1234 70 = [0xfc, 0xff, 0x03, 0x0f, 0x12, 0x34, 0x02, 0x8d]"
    by (simp add: tei_msg_bytes_def hdr0_def GROUP_TEI_def TEI_ENTITY_ID_def ID_ASSIGNED_def Let_def)
  have d: "decode hdr0 (tei_msg_bytes hdr0 False ID_ASSIGNED 0x1234 70) =
      Some (ID_ASSIGNED, uint (0x1234 :: u_int), uint (70 :: u_char))"
    using decode_encode_identity [OF h, of False] by (rule conjunct2 [OF conjunct2])
  have d': "decode hdr0 [0xfc, 0xff, 0x03, 0x0f, 0x12, 0x34, 0x02, 0x8d] = Some (ID_ASSIGNED, 0x1234, 70)"
    using d unfolding b by simp
  show ?thesis by (intro conjI) (fact h b d')+
qed

text \<open>
  C8: in every reachable state of a manager, \<^verbatim>\<open>MGR_PH_NOTREADY\<close> is set if and only if
  \<^verbatim>\<open>lastid\<close> differs from \<^verbatim>\<open>MISDN_ID_NONE\<close>, and at most one buffer is in flight at
  the transport; a new manager has an empty queue, \<^verbatim>\<open>MGR_PH_NOTREADY\<close> clear and
  \<^verbatim>\<open>lastid\<close> none. The reachable states are closed under enqueuing
  (\<^verbatim>\<open>put_tei_msg\<close>, \<^verbatim>\<open>dl_unit_data\<close>), \<^verbatim>\<open>do_send\<close>, \<^verbatim>\<open>do_ack\<close>, activation
  and deactivation of the link. The none value, which is not in the sources, must not be
  an id that \<^verbatim>\<open>new_id\<close> can build.
\<close>

theorem notready_iff_lastid:
  assumes "none_is_no_id c" and "reachable c m"
  shows "(MGR_PH_NOTREADY m = (lastid m \<noteq> MISDN_ID_NONE c)) \<and>
         length (ch_inflight m) \<le> 1 \<and>
         sendq (mISDN_create_manager c) = [] \<and>
         \<not> MGR_PH_NOTREADY (mISDN_create_manager c) \<and>
         lastid (mISDN_create_manager c) = MISDN_ID_NONE c"
proof -
  have q: "qinv c m" using assms by (rule reachable_qinv)
  then have "length (map skb_id (ch_inflight m)) \<le> 1" by (simp add: qinv_def)
  then have "length (ch_inflight m) \<le> 1" by simp
  with q show ?thesis by (simp add: qinv_def mISDN_create_manager_def)
qed

theorem notready_iff_lastid_witness:
  "none_is_no_id hdr0 \<and> reachable hdr0 ex_mgr3 \<and>
   MGR_PH_NOTREADY ex_mgr3 \<and> lastid ex_mgr3 \<noteq> MISDN_ID_NONE hdr0 \<and>
   length (ch_inflight ex_mgr3) \<le> 1"
proof -
  have r: "reachable hdr0 ex_mgr3" by (rule reachable_ex_mgr3)
  have n: "MGR_PH_NOTREADY ex_mgr3" by (simp add: ex_mgr3_eq)
  from notready_iff_lastid [OF none_is_no_id_hdr0 r] n
  have "lastid ex_mgr3 \<noteq> MISDN_ID_NONE hdr0" and "length (ch_inflight ex_mgr3) \<le> 1"
    by simp_all
  with none_is_no_id_hdr0 r n show ?thesis by simp
qed

text \<open>
  C1: in every reachable state and for every session, the retry timer is pending if and
  only if the session's state is \<^verbatim>\<open>ST_TEI_IDREQ\<close> or \<^verbatim>\<open>ST_TEI_IDVERIFY\<close>. The
  reachable states are closed under every event of the table, the expiry of a timer, inbound
  frames and the commands of layer 2, so every transition into one of the two states arms
  the timer and every transition out of them leaves none pending.
\<close>

theorem timer_pending_iff_waiting:
  assumes "reachable c m" and "i < length (mgr_layer2 m)"
  shows "tm_timer (tm_of m i) =
         (tm_state (tm_of m i) = ST_TEI_IDREQ \<or> tm_state (tm_of m i) = ST_TEI_IDVERIFY)"
proof -
  have "timer_inv m" using assms(1) by (rule reachable_timer_inv)
  then have "session_ok (tm_of m i)" using assms(2) by (simp add: timer_inv_nth tm_of_def)
  then show ?thesis by (simp add: session_ok_def)
qed

theorem timer_pending_iff_waiting_witness:
  "reachable hdr0 ex_mgr2 \<and> 0 < length (mgr_layer2 ex_mgr2) \<and>
   tm_state (tm_of ex_mgr2 0) = ST_TEI_IDREQ \<and> tm_timer (tm_of ex_mgr2 0)"
proof -
  have r: "reachable hdr0 ex_mgr2" by (rule reachable_ex_mgr2)
  have l: "0 < length (mgr_layer2 ex_mgr2)" by (simp add: ex_mgr2_eq)
  have s: "tm_state (tm_of ex_mgr2 0) = ST_TEI_IDREQ" by (simp add: ex_mgr2_eq tm_of_def)
  from timer_pending_iff_waiting [OF r l] s have "tm_timer (tm_of ex_mgr2 0)" by simp
  with r l s show ?thesis by simp
qed

text \<open>
  C2: \<^verbatim>\<open>EV_IDREQ\<close> delivered to a session in \<^verbatim>\<open>ST_TEI_NOP\<close> whose entity has tei
  \<^verbatim>\<open>GROUP_TEI\<close> draws a random \<open>ri\<close>, hands exactly one
  \<^verbatim>\<open>ID_REQUEST(ri, GROUP_TEI)\<close> frame to the manager's send path, and leaves the session
  in \<^verbatim>\<open>ST_TEI_IDREQ\<close> with \<open>nval = 3\<close> and the timer pending. With any other tei the
  event changes nothing. Three expiries of the timer with nothing in between issue exactly
  one \<^verbatim>\<open>MDL_ERROR_RSP\<close> (on the third) and leave the session in \<^verbatim>\<open>ST_TEI_NOP\<close> without
  a timer and the tei still \<^verbatim>\<open>GROUP_TEI\<close>.
\<close>

theorem start_assign_and_retries:
  "(tei_of m i \<noteq> int GROUP_TEI \<longrightarrow> mISDN_FsmEvent c e m i EV_IDREQ dp = m) \<and>
   (i < length (mgr_layer2 m) \<and> tm_state (tm_of m i) = ST_TEI_NOP \<and> tei_of m i = int GROUP_TEI \<longrightarrow>
      (let m1 = mISDN_FsmEvent c e m i EV_IDREQ dp;
           m2 = FsmExpireTimer c e1 m1 i;
           m3 = FsmExpireTimer c e2 m2 i;
           m4 = FsmExpireTimer c e3 m3 i in
       tm_ri (tm_of m1 i) = uint (rand e (rnd_used m)) \<and> rnd_used m1 = Suc (rnd_used m) \<and>
       frames m1 =
         frames m + {#tei_skb c m i ID_REQUEST (ucast (rand e (rnd_used m))) (of_nat GROUP_TEI)#} \<and>
       l2_log m1 = l2_log m \<and>
       tm_state (tm_of m1 i) = ST_TEI_IDREQ \<and> tm_nval (tm_of m1 i) = 3 \<and> tm_timer (tm_of m1 i) \<and>
       l2_log m2 = l2_log m \<and> tm_state (tm_of m2 i) = ST_TEI_IDREQ \<and>
       l2_log m3 = l2_log m \<and> tm_state (tm_of m3 i) = ST_TEI_IDREQ \<and>
       l2_log m4 = l2_log m @ [(i, MDL_ERROR_RSP, 0)] \<and>
       tm_state (tm_of m4 i) = ST_TEI_NOP \<and> \<not> tm_timer (tm_of m4 i) \<and>
       tei_of m4 i = int GROUP_TEI))"
proof -
  have a: "?thesis" if h: "i < length (mgr_layer2 m)" "tm_state (tm_of m i) = ST_TEI_NOP"
    "tei_of m i = int GROUP_TEI"
  proof -
    let ?m1 = "mISDN_FsmEvent c e m i EV_IDREQ dp"
    let ?m2 = "FsmExpireTimer c e1 ?m1 i"
    let ?m3 = "FsmExpireTimer c e2 ?m2 i"
    note r1 = id_request_effect [OF h, of c e dp]
    have i1: "i < length (mgr_layer2 ?m1)" using r1(9) h(1) by simp
    have n1: "tm_nval (tm_of ?m1 i) \<noteq> 1" using r1(4) by simp
    note r2 = req_tout_resend [OF i1 r1(2) n1 r1(3), of c e1]
    have i2: "i < length (mgr_layer2 ?m2)" using r2(7) i1 by simp
    have n2: "tm_nval (tm_of ?m2 i) \<noteq> 1" using r2(4) r1(4) by simp
    note r3 = req_tout_resend [OF i2 r2(2) n2 r2(3), of c e2]
    have i3: "i < length (mgr_layer2 ?m3)" using r3(7) i2 by simp
    have n3: "tm_nval (tm_of ?m3 i) = 1" using r3(4) r2(4) r1(4) by simp
    note r4 = req_tout_fail [OF i3 r3(2) n3 r3(3), of c e3]
    have t: "tei_of (FsmExpireTimer c e3 ?m3 i) i = int GROUP_TEI"
      using r4(5) r3(6) r2(6) r1(8) h(3) by simp
    show ?thesis using h r1(1-7) r2(2,5) r3(2,5) r4(2,3,4) t
      by (simp add: Let_def)
  qed
  show ?thesis
  proof (cases "i < length (mgr_layer2 m) \<and> tm_state (tm_of m i) = ST_TEI_NOP \<and> tei_of m i = int GROUP_TEI")
    case True
    then show ?thesis using a by blast
  next
    case False
    then show ?thesis by (auto simp: id_request_assigned)
  qed
qed

theorem start_assign_and_retries_witness:
  "0 < length (mgr_layer2 ex_mgr1) \<and> tm_state (tm_of ex_mgr1 0) = ST_TEI_NOP \<and>
   tei_of ex_mgr1 0 = int GROUP_TEI \<and>
   tm_state (tm_of (mISDN_FsmEvent hdr0 env0 ex_mgr1 0 EV_IDREQ []) 0) = ST_TEI_IDREQ \<and>
   tm_nval (tm_of (mISDN_FsmEvent hdr0 env0 ex_mgr1 0 EV_IDREQ []) 0) = 3 \<and>
   tm_timer (tm_of (mISDN_FsmEvent hdr0 env0 ex_mgr1 0 EV_IDREQ []) 0) \<and>
   l2_log (FsmExpireTimer hdr0 env0 (FsmExpireTimer hdr0 env0 (FsmExpireTimer hdr0 env0
     (mISDN_FsmEvent hdr0 env0 ex_mgr1 0 EV_IDREQ []) 0) 0) 0) = [(0, MDL_ERROR_RSP, 0)]"
proof -
  have h: "0 < length (mgr_layer2 ex_mgr1) \<and> tm_state (tm_of ex_mgr1 0) = ST_TEI_NOP \<and>
      tei_of ex_mgr1 0 = int GROUP_TEI"
    by (simp add: ex_mgr1_eq tm_of_def tei_of_def GROUP_TEI_def)
  have l: "l2_log ex_mgr1 = []" by (simp add: ex_mgr1_eq)
  from start_assign_and_retries [of ex_mgr1 0 hdr0 env0 "[]" env0 env0 env0] h l
  show ?thesis by (simp add: Let_def)
qed

text \<open>
  C5: for a session in \<^verbatim>\<open>ST_TEI_IDVERIFY\<close> with \<open>nval = 2\<close> and its timer pending, the
  first expiry hands exactly one \<^verbatim>\<open>ID_VERIFY\<close> frame to the send path, issues no
  notification and leaves the session in \<^verbatim>\<open>ST_TEI_IDVERIFY\<close> with the timer pending
  again; the second expiry sends nothing, issues exactly one \<^verbatim>\<open>MDL_REMOVE_REQ\<close> and
  leaves the session in \<^verbatim>\<open>ST_TEI_NOP\<close> without a timer. No event or expiry handled in
  \<^verbatim>\<open>ST_TEI_IDVERIFY\<close>, and no start of the verification, issues \<^verbatim>\<open>MDL_ERROR_RSP\<close>.
\<close>

theorem verify_two_timeouts:
  "(i < length (mgr_layer2 m) \<and> tm_state (tm_of m i) = ST_TEI_IDVERIFY \<and>
    tm_nval (tm_of m i) = 2 \<and> tm_timer (tm_of m i) \<longrightarrow>
      (let m1 = FsmExpireTimer c e1 m i; m2 = FsmExpireTimer c e2 m1 i in
       frames m1 = frames m + {#tei_skb c m i ID_VERIFY 0 (word_of_int (tei_of m i))#} \<and>
       l2_log m1 = l2_log m \<and>
       tm_state (tm_of m1 i) = ST_TEI_IDVERIFY \<and> tm_timer (tm_of m1 i) \<and>
       frames m2 = frames m1 \<and>
       l2_log m2 = l2_log m @ [(i, MDL_REMOVE_REQ, 0)] \<and>
       tm_state (tm_of m2 i) = ST_TEI_NOP \<and> \<not> tm_timer (tm_of m2 i))) \<and>
   (tm_state (tm_of m i) = ST_TEI_IDVERIFY \<longrightarrow>
      assignment_failed (mISDN_FsmEvent c e m i ev dp) = assignment_failed m \<and>
      assignment_failed (FsmExpireTimer c e m i) = assignment_failed m) \<and>
   assignment_failed (raise_EV_VERIFY c e m i) = assignment_failed m"
proof -
  have a: "?thesis" if h: "i < length (mgr_layer2 m)" "tm_state (tm_of m i) = ST_TEI_IDVERIFY"
    "tm_nval (tm_of m i) = 2" "tm_timer (tm_of m i)"
  proof -
    let ?m1 = "FsmExpireTimer c e1 m i"
    have n: "tm_nval (tm_of m i) \<noteq> 1" using h(3) by simp
    note r = ver_tout_resend [OF h(1,2) n h(4), of c e1]
    have n1: "tm_nval (tm_of ?m1 i) = 1" using r(4) h(3) by simp
    have i1: "i < length (mgr_layer2 ?m1)" using r(7) h(1) by simp
    note f = ver_tout_fail [OF i1 r(2) n1 r(3), of c e2]
    show ?thesis using r f h
      by (simp add: Let_def verify_path_no_failure verify_expiry_no_failure verify_start_no_failure)
  qed
  show ?thesis
  proof (cases "i < length (mgr_layer2 m) \<and> tm_state (tm_of m i) = ST_TEI_IDVERIFY \<and>
    tm_nval (tm_of m i) = 2 \<and> tm_timer (tm_of m i)")
    case True
    then show ?thesis using a by blast
  next
    case False
    then show ?thesis
      by (auto simp: verify_path_no_failure verify_expiry_no_failure verify_start_no_failure)
  qed
qed

theorem verify_two_timeouts_witness:
  "0 < length (mgr_layer2 ex_ver2) \<and> tm_state (tm_of ex_ver2 0) = ST_TEI_IDVERIFY \<and>
   tm_nval (tm_of ex_ver2 0) = 2 \<and> tm_timer (tm_of ex_ver2 0) \<and>
   l2_log (FsmExpireTimer hdr0 env0 ex_ver2 0) = [] \<and>
   tm_state (tm_of (FsmExpireTimer hdr0 env0 ex_ver2 0) 0) = ST_TEI_IDVERIFY \<and>
   l2_log (FsmExpireTimer hdr0 env0 (FsmExpireTimer hdr0 env0 ex_ver2 0) 0) = [(0, MDL_REMOVE_REQ, 0)] \<and>
   tm_state (tm_of (FsmExpireTimer hdr0 env0 (FsmExpireTimer hdr0 env0 ex_ver2 0) 0) 0) = ST_TEI_NOP"
proof -
  have h: "0 < length (mgr_layer2 ex_ver2) \<and> tm_state (tm_of ex_ver2 0) = ST_TEI_IDVERIFY \<and>
      tm_nval (tm_of ex_ver2 0) = 2 \<and> tm_timer (tm_of ex_ver2 0)"
    by (simp add: ex_ver2_eq tm_of_def)
  have l: "l2_log ex_ver2 = []" by (simp add: ex_ver2_eq)
  from verify_two_timeouts [of 0 ex_ver2 hdr0 env0 env0] h l
  show ?thesis by (simp add: Let_def)
qed

text \<open>
  C7: for a frame that passes the structural checks, \<^verbatim>\<open>ph_data_ind\<close> rejects a
  network-sent type (\<^verbatim>\<open>ID_ASSIGNED\<close>, \<^verbatim>\<open>ID_DENIED\<close>, \<^verbatim>\<open>ID_CHK_REQ\<close>,
  \<^verbatim>\<open>ID_REMOVE\<close>) when \<^verbatim>\<open>MGR_OPT_NETWORK\<close> is set, and a terminal-sent type
  (\<^verbatim>\<open>ID_REQUEST\<close>, \<^verbatim>\<open>ID_CHK_RES\<close>, \<^verbatim>\<open>ID_VERIFY\<close>) when it is clear: it returns
  \<^verbatim>\<open>-EINVAL\<close> and the manager with all its sessions is unchanged. In the matching role
  the frame is accepted, and a network-sent type is handed to every session.
\<close>

theorem role_direction_rule:
  assumes "frame_checks c d"
  shows "(network_directed (d ! 6) \<and> MGR_OPT_NETWORK m \<longrightarrow> ph_data_ind c e m d = (EINVAL, m)) \<and>
         (terminal_directed (d ! 6) \<and> \<not> MGR_OPT_NETWORK m \<longrightarrow> ph_data_ind c e m d = (EINVAL, m)) \<and>
         (network_directed (d ! 6) \<and> \<not> MGR_OPT_NETWORK m \<longrightarrow>
            ph_data_ind c e m d = (RET_0, fan_out c e m (d ! 6) (drop 4 d))) \<and>
         (terminal_directed (d ! 6) \<and> MGR_OPT_NETWORK m \<longrightarrow> fst (ph_data_ind c e m d) = RET_0)"
proof -
  have 1: "network_directed (d ! 6) \<Longrightarrow> d ! 6 \<noteq> ID_REQUEST"
    by (auto simp: network_directed_def ID_REQUEST_def ID_ASSIGNED_def ID_DENIED_def ID_CHK_REQ_def ID_REMOVE_def)
  show ?thesis using assms 1
    by (auto simp: ph_data_ind_def Let_def mt_classes fan_out_def)
qed

theorem role_direction_rule_witness:
  "frame_checks hdr0 ex_frame_assigned \<and> network_directed (ex_frame_assigned ! 6) \<and>
   MGR_OPT_NETWORK (ex_mgr2\<lparr>MGR_OPT_NETWORK := True\<rparr>) \<and>
   ph_data_ind hdr0 env0 (ex_mgr2\<lparr>MGR_OPT_NETWORK := True\<rparr>) ex_frame_assigned =
     (EINVAL, ex_mgr2\<lparr>MGR_OPT_NETWORK := True\<rparr>)"
proof -
  have f: "frame_checks hdr0 ex_frame_assigned"
    by (simp add: frame_checks_def ex_frame_assigned_def hdr0_def GROUP_TEI_def TEI_ENTITY_ID_def)
  have n: "network_directed (ex_frame_assigned ! 6)"
    by (simp add: network_directed_def ex_frame_assigned_def ID_ASSIGNED_def)
  have o: "MGR_OPT_NETWORK (ex_mgr2\<lparr>MGR_OPT_NETWORK := True\<rparr>)" by simp
  from role_direction_rule [OF f, of "ex_mgr2\<lparr>MGR_OPT_NETWORK := True\<rparr>" env0] n o
  have "ph_data_ind hdr0 env0 (ex_mgr2\<lparr>MGR_OPT_NETWORK := True\<rparr>) ex_frame_assigned =
     (EINVAL, ex_mgr2\<lparr>MGR_OPT_NETWORK := True\<rparr>)" by blast
  with f n o show ?thesis by blast
qed

text \<open>
  C9, as stated, fails when the transport refuses the next frame: \<^verbatim>\<open>do_ack\<close> with the
  matching id then ends with \<^verbatim>\<open>lastid\<close> none and \<^verbatim>\<open>MGR_PH_NOTREADY\<close> clear, not with
  the id of the new frame.
\<close>

theorem do_ack_refused_counterexample:
  "MGR_PH_NOTREADY ex_mgr4 \<and> lastid ex_mgr4 = 98111 \<and> MGR_PH_ACTIVE ex_mgr4 \<and>
   map skb_id (sendq ex_mgr4) = [163647] \<and>
   lastid (do_ack hdr0 env_refuse ex_mgr4 98111) \<noteq> 163647 \<and>
   lastid (do_ack hdr0 env_refuse ex_mgr4 98111) = MISDN_ID_NONE hdr0 \<and>
   \<not> MGR_PH_NOTREADY (do_ack hdr0 env_refuse ex_mgr4 98111) \<and>
   ch_accepted (do_ack hdr0 env_refuse ex_mgr4 98111) = ch_accepted ex_mgr4 \<and>
   map skb_id (kfreed (do_ack hdr0 env_refuse ex_mgr4 98111)) = [163647]"
  by (simp add: ex_mgr4_eq do_ack_def hand_off_def dev_kfree_skb_def env_refuse_def hdr0_def)

text \<open>
  C9, amended: \<^verbatim>\<open>do_ack\<close> with an id other than \<^verbatim>\<open>lastid\<close>, or with
  \<^verbatim>\<open>MGR_PH_NOTREADY\<close> clear, changes nothing. With the matching id, an active link and a
  non-empty queue it hands the head of the queue to the transport in the same call: if the
  transport accepts it, \<^verbatim>\<open>lastid\<close> is the id of that frame and \<^verbatim>\<open>MGR_PH_NOTREADY\<close>
  stays set; if the transport refuses it, the frame is released and \<^verbatim>\<open>lastid\<close> and
  \<^verbatim>\<open>MGR_PH_NOTREADY\<close> are cleared. With an empty queue it clears both.
\<close>

theorem do_ack_outcomes:
  "(\<not> MGR_PH_NOTREADY m \<or> aid \<noteq> lastid m \<longrightarrow> do_ack c e m aid = m) \<and>
   (MGR_PH_NOTREADY m \<and> aid = lastid m \<and> MGR_PH_ACTIVE m \<and> sendq m = skb # rest \<and>
      ch_recv e skb = 0 \<longrightarrow>
      do_ack c e m aid =
        m\<lparr>sendq := rest, lastid := skb_id skb, ch_accepted := ch_accepted m @ [skb],
           ch_inflight := ch_inflight m @ [skb]\<rparr>) \<and>
   (MGR_PH_NOTREADY m \<and> aid = lastid m \<and> MGR_PH_ACTIVE m \<and> sendq m = skb # rest \<and>
      ch_recv e skb \<noteq> 0 \<longrightarrow>
      do_ack c e m aid =
        m\<lparr>MGR_PH_NOTREADY := False, sendq := rest, lastid := MISDN_ID_NONE c,
           kfreed := kfreed m @ [skb]\<rparr>) \<and>
   (MGR_PH_NOTREADY m \<and> aid = lastid m \<and> sendq m = [] \<longrightarrow>
      do_ack c e m aid = m\<lparr>MGR_PH_NOTREADY := False, lastid := MISDN_ID_NONE c\<rparr>)"
  by (simp add: do_ack_def hand_off_def dev_kfree_skb_def Let_def)

theorem do_ack_outcomes_witness:
  "MGR_PH_NOTREADY ex_mgr4 \<and> lastid ex_mgr4 = 98111 \<and> MGR_PH_ACTIVE ex_mgr4 \<and>
   map skb_id (sendq ex_mgr4) = [163647] \<and>
   lastid (do_ack hdr0 env0 ex_mgr4 98111) = 163647 \<and>
   MGR_PH_NOTREADY (do_ack hdr0 env0 ex_mgr4 98111) \<and>
   sendq (do_ack hdr0 env0 ex_mgr4 98111) = [] \<and>
   do_ack hdr0 env0 ex_mgr4 5 = ex_mgr4"
proof -
  let ?s = "\<lparr>skb_prim = PH_DATA_REQ, skb_id = 163647, skb_data = [252, 255, 3, 15, 18, 52, 1, 255]\<rparr>"
  have h: "MGR_PH_NOTREADY ex_mgr4 \<and> lastid ex_mgr4 = 98111 \<and> MGR_PH_ACTIVE ex_mgr4 \<and>
      sendq ex_mgr4 = [?s] \<and> ch_recv env0 ?s = 0"
    by (simp add: ex_mgr4_eq env0_def)
  from do_ack_outcomes [of ex_mgr4 98111 hdr0 env0 ?s "[]"] h
  have 1: "do_ack hdr0 env0 ex_mgr4 98111 =
      ex_mgr4\<lparr>sendq := [], lastid := 163647, ch_accepted := ch_accepted ex_mgr4 @ [?s],
        ch_inflight := ch_inflight ex_mgr4 @ [?s]\<rparr>" by simp
  from do_ack_outcomes [of ex_mgr4 5 hdr0 env0 ?s "[]"] h
  have 2: "do_ack hdr0 env0 ex_mgr4 5 = ex_mgr4" by simp
  show ?thesis using h unfolding 1 2 by simp
qed

end
